theory Spec2Isabelle
  imports Main "HOL-Library.Word"
begin

unbundle bit_operations_syntax

section \<open>The V4L2 compatibility proxy (v4l2\_camera\_proxy.cpp)\<close>

text \<open>
  A shallow embedding of \<^verbatim>\<open>V4L2CameraProxy\<close>: every handler is a function from the
  proxy state (and the answers of the backend camera it calls) to its return code, the
  new state and the argument structure as the caller finds it afterwards.
  \<^verbatim>\<open>unsigned int\<close> and \<^verbatim>\<open>__u32\<close> are 32-bit words, \<^verbatim>\<open>uint64_t\<close> and
  \<^verbatim>\<open>long\<close> are 64-bit words, \<^verbatim>\<open>int\<close> return codes are integers. A member
  \<^verbatim>\<open>name_\<close> of a class is the field \<open>name_m\<close> of its record, and the fields of a
  V4L2 structure carry a prefix naming the structure.
\<close>

type_synonym u32 = "32 word"
type_synonym u64 = "64 word"

subsection \<open>Outcomes of a call\<close>

text \<open>
  A call either returns, or runs into undefined behaviour of C++ (an element of a
  \<^verbatim>\<open>std::vector\<close> read past its end, a division by zero, an argument pointer to
  an object of another type), or is suspended in
  \<^verbatim>\<open>V4L2Camera::waitForBufferAvailable\<close>.
\<close>

datatype 'a outcome = Undefined | Blocked | Returns 'a

fun bind_outcome :: "'a outcome \<Rightarrow> ('a \<Rightarrow> 'b outcome) \<Rightarrow> 'b outcome" where
  "bind_outcome Undefined k = Undefined"
| "bind_outcome Blocked k = Blocked"
| "bind_outcome (Returns x) k = k x"

subsection \<open>Constants of errno.h and linux/videodev2.h\<close>

definition EAGAIN :: int where "EAGAIN = 11"
definition ENOMEM :: int where "ENOMEM = 12"
definition EFAULT :: int where "EFAULT = 14"
definition EBUSY :: int where "EBUSY = 16"
definition EINVAL :: int where "EINVAL = 22"
definition ENOTTY :: int where "ENOTTY = 25"

definition V4L2_BUF_TYPE_VIDEO_CAPTURE :: u32 where "V4L2_BUF_TYPE_VIDEO_CAPTURE = 1"
definition V4L2_MEMORY_MMAP :: u32 where "V4L2_MEMORY_MMAP = 1"
definition V4L2_FIELD_NONE :: u32 where "V4L2_FIELD_NONE = 1"
definition V4L2_COLORSPACE_SRGB :: u32 where "V4L2_COLORSPACE_SRGB = 8"
definition V4L2_PIX_FMT_PRIV_MAGIC :: u32 where "V4L2_PIX_FMT_PRIV_MAGIC = 0xfeedcafe"
definition V4L2_YCBCR_ENC_DEFAULT :: u32 where "V4L2_YCBCR_ENC_DEFAULT = 0"
definition V4L2_QUANTIZATION_DEFAULT :: u32 where "V4L2_QUANTIZATION_DEFAULT = 0"
definition V4L2_XFER_FUNC_DEFAULT :: u32 where "V4L2_XFER_FUNC_DEFAULT = 0"

definition V4L2_BUF_FLAG_MAPPED :: u32 where "V4L2_BUF_FLAG_MAPPED = 0x00000001"
definition V4L2_BUF_FLAG_QUEUED :: u32 where "V4L2_BUF_FLAG_QUEUED = 0x00000002"
definition V4L2_BUF_FLAG_DONE :: u32 where "V4L2_BUF_FLAG_DONE = 0x00000004"
definition V4L2_BUF_FLAG_ERROR :: u32 where "V4L2_BUF_FLAG_ERROR = 0x00000040"
definition V4L2_BUF_FLAG_TIMESTAMP_MONOTONIC :: u32 where
  "V4L2_BUF_FLAG_TIMESTAMP_MONOTONIC = 0x00002000"
definition V4L2_BUF_CAP_SUPPORTS_MMAP :: u32 where "V4L2_BUF_CAP_SUPPORTS_MMAP = 1"

definition V4L2_CAP_VIDEO_CAPTURE :: u32 where "V4L2_CAP_VIDEO_CAPTURE = 0x00000001"
definition V4L2_CAP_EXT_PIX_FORMAT :: u32 where "V4L2_CAP_EXT_PIX_FORMAT = 0x00200000"
definition V4L2_CAP_STREAMING :: u32 where "V4L2_CAP_STREAMING = 0x04000000"
definition V4L2_CAP_DEVICE_CAPS :: u32 where "V4L2_CAP_DEVICE_CAPS = 0x80000000"

definition V4L2_FRMSIZE_TYPE_DISCRETE :: u32 where "V4L2_FRMSIZE_TYPE_DISCRETE = 1"
definition V4L2_INPUT_TYPE_CAMERA :: u32 where "V4L2_INPUT_TYPE_CAMERA = 2"

text \<open>
  \<^verbatim>\<open>enum v4l2_priority\<close>, kept in 32 bits. It is an unscoped enumeration with the
  enumerators 0 to 3, so in a comparison C++ promotes both operands to \<^verbatim>\<open>int\<close>:
  priorities compare as signed 32-bit integers, and a value with the top bit set is
  below every enumerator.
\<close>

definition V4L2_PRIORITY_UNSET :: u32 where "V4L2_PRIORITY_UNSET = 0"
definition V4L2_PRIORITY_BACKGROUND :: u32 where "V4L2_PRIORITY_BACKGROUND = 1"
definition V4L2_PRIORITY_INTERACTIVE :: u32 where "V4L2_PRIORITY_INTERACTIVE = 2"
definition V4L2_PRIORITY_RECORD :: u32 where "V4L2_PRIORITY_RECORD = 3"

definition priority_less :: "u32 \<Rightarrow> u32 \<Rightarrow> bool" where
  "priority_less a b = (sint a < sint b)"

text \<open>
  Four-character codes: \<^verbatim>\<open>v4l2_fourcc(a, b, c, d)\<close> of videodev2.h and
  \<^verbatim>\<open>fourcc_code(a, b, c, d)\<close> of drm\_fourcc.h are the same little-endian packing.
\<close>

definition fourcc_code :: "char \<Rightarrow> char \<Rightarrow> char \<Rightarrow> char \<Rightarrow> u32" where
  "fourcc_code a b c d =
     of_char a OR push_bit 8 (of_char b) OR push_bit 16 (of_char c) OR push_bit 24 (of_char d)"

definition V4L2_PIX_FMT_BGR24 :: u32 where
  "V4L2_PIX_FMT_BGR24 = fourcc_code CHR ''B'' CHR ''G'' CHR ''R'' CHR ''3''"
definition V4L2_PIX_FMT_RGB24 :: u32 where
  "V4L2_PIX_FMT_RGB24 = fourcc_code CHR ''R'' CHR ''G'' CHR ''B'' CHR ''3''"
definition V4L2_PIX_FMT_ARGB32 :: u32 where
  "V4L2_PIX_FMT_ARGB32 = fourcc_code CHR ''B'' CHR ''A'' CHR ''2'' CHR ''4''"
definition V4L2_PIX_FMT_UYVY :: u32 where
  "V4L2_PIX_FMT_UYVY = fourcc_code CHR ''U'' CHR ''Y'' CHR ''V'' CHR ''Y''"
definition V4L2_PIX_FMT_VYUY :: u32 where
  "V4L2_PIX_FMT_VYUY = fourcc_code CHR ''V'' CHR ''Y'' CHR ''U'' CHR ''Y''"
definition V4L2_PIX_FMT_YUYV :: u32 where
  "V4L2_PIX_FMT_YUYV = fourcc_code CHR ''Y'' CHR ''U'' CHR ''Y'' CHR ''V''"
definition V4L2_PIX_FMT_YVYU :: u32 where
  "V4L2_PIX_FMT_YVYU = fourcc_code CHR ''Y'' CHR ''V'' CHR ''Y'' CHR ''U''"
definition V4L2_PIX_FMT_NV12 :: u32 where
  "V4L2_PIX_FMT_NV12 = fourcc_code CHR ''N'' CHR ''V'' CHR ''1'' CHR ''2''"
definition V4L2_PIX_FMT_NV21 :: u32 where
  "V4L2_PIX_FMT_NV21 = fourcc_code CHR ''N'' CHR ''V'' CHR ''2'' CHR ''1''"
definition V4L2_PIX_FMT_NV16 :: u32 where
  "V4L2_PIX_FMT_NV16 = fourcc_code CHR ''N'' CHR ''V'' CHR ''1'' CHR ''6''"
definition V4L2_PIX_FMT_NV61 :: u32 where
  "V4L2_PIX_FMT_NV61 = fourcc_code CHR ''N'' CHR ''V'' CHR ''6'' CHR ''1''"
definition V4L2_PIX_FMT_NV24 :: u32 where
  "V4L2_PIX_FMT_NV24 = fourcc_code CHR ''N'' CHR ''V'' CHR ''2'' CHR ''4''"
definition V4L2_PIX_FMT_NV42 :: u32 where
  "V4L2_PIX_FMT_NV42 = fourcc_code CHR ''N'' CHR ''V'' CHR ''4'' CHR ''2''"
definition V4L2_PIX_FMT_YUV420 :: u32 where
  "V4L2_PIX_FMT_YUV420 = fourcc_code CHR ''Y'' CHR ''U'' CHR ''1'' CHR ''2''"
definition V4L2_PIX_FMT_YUV422P :: u32 where
  "V4L2_PIX_FMT_YUV422P = fourcc_code CHR ''4'' CHR ''2'' CHR ''2'' CHR ''P''"
definition V4L2_PIX_FMT_MJPEG :: u32 where
  "V4L2_PIX_FMT_MJPEG = fourcc_code CHR ''M'' CHR ''J'' CHR ''P'' CHR ''G''"

subsection \<open>Pixel formats and sizes (pixelformats.h, geometry.h)\<close>

text \<open>
  \<^verbatim>\<open>class PixelFormat\<close> holds a fourcc and a modifier; its \<^verbatim>\<open>operator==\<close>
  compares both, which is the equality of the record. The conversion
  \<^verbatim>\<open>operator uint32_t()\<close> returns the fourcc.
\<close>

record PixelFormat =
  fourcc :: u32
  modifier :: u64

definition PixelFormat_default :: PixelFormat where
  "PixelFormat_default = \<lparr>fourcc = 0, modifier = 0\<rparr>"

definition PixelFormat_of :: "u32 \<Rightarrow> PixelFormat" where
  "PixelFormat_of f = \<lparr>fourcc = f, modifier = 0\<rparr>"

text \<open>The constants of the \<^verbatim>\<open>formats\<close> namespace: DRM fourccs with modifier 0.\<close>

definition formats_RGB888 :: PixelFormat where
  "formats_RGB888 = PixelFormat_of (fourcc_code CHR ''R'' CHR ''G'' CHR ''2'' CHR ''4'')"
definition formats_BGR888 :: PixelFormat where
  "formats_BGR888 = PixelFormat_of (fourcc_code CHR ''B'' CHR ''G'' CHR ''2'' CHR ''4'')"
definition formats_BGRA8888 :: PixelFormat where
  "formats_BGRA8888 = PixelFormat_of (fourcc_code CHR ''B'' CHR ''A'' CHR ''2'' CHR ''4'')"
definition formats_UYVY :: PixelFormat where
  "formats_UYVY = PixelFormat_of (fourcc_code CHR ''U'' CHR ''Y'' CHR ''V'' CHR ''Y'')"
definition formats_VYUY :: PixelFormat where
  "formats_VYUY = PixelFormat_of (fourcc_code CHR ''V'' CHR ''Y'' CHR ''U'' CHR ''Y'')"
definition formats_YUYV :: PixelFormat where
  "formats_YUYV = PixelFormat_of (fourcc_code CHR ''Y'' CHR ''U'' CHR ''Y'' CHR ''V'')"
definition formats_YVYU :: PixelFormat where
  "formats_YVYU = PixelFormat_of (fourcc_code CHR ''Y'' CHR ''V'' CHR ''Y'' CHR ''U'')"
definition formats_NV12 :: PixelFormat where
  "formats_NV12 = PixelFormat_of (fourcc_code CHR ''N'' CHR ''V'' CHR ''1'' CHR ''2'')"
definition formats_NV21 :: PixelFormat where
  "formats_NV21 = PixelFormat_of (fourcc_code CHR ''N'' CHR ''V'' CHR ''2'' CHR ''1'')"
definition formats_NV16 :: PixelFormat where
  "formats_NV16 = PixelFormat_of (fourcc_code CHR ''N'' CHR ''V'' CHR ''1'' CHR ''6'')"
definition formats_NV61 :: PixelFormat where
  "formats_NV61 = PixelFormat_of (fourcc_code CHR ''N'' CHR ''V'' CHR ''6'' CHR ''1'')"
definition formats_NV24 :: PixelFormat where
  "formats_NV24 = PixelFormat_of (fourcc_code CHR ''N'' CHR ''V'' CHR ''2'' CHR ''4'')"
definition formats_NV42 :: PixelFormat where
  "formats_NV42 = PixelFormat_of (fourcc_code CHR ''N'' CHR ''V'' CHR ''4'' CHR ''2'')"
definition formats_YUV420 :: PixelFormat where
  "formats_YUV420 = PixelFormat_of (fourcc_code CHR ''Y'' CHR ''U'' CHR ''1'' CHR ''2'')"
definition formats_YUV422 :: PixelFormat where
  "formats_YUV422 = PixelFormat_of (fourcc_code CHR ''Y'' CHR ''U'' CHR ''1'' CHR ''6'')"
definition formats_MJPEG :: PixelFormat where
  "formats_MJPEG = PixelFormat_of (fourcc_code CHR ''M'' CHR ''J'' CHR ''P'' CHR ''G'')"

record Size =
  width :: u32
  height :: u32

definition Size_of :: "u32 \<Rightarrow> u32 \<Rightarrow> Size" where
  "Size_of w h = \<lparr>width = w, height = h\<rparr>"

subsection \<open>The stream configuration held by the proxy\<close>

text \<open>
  Modelled from the spec: \<^verbatim>\<open>StreamFormats\<close> (stream.h is not among the sources) is
  the backend's advertised (encoding, size-list) capability table, an association list
  in the advertised order. \<^verbatim>\<open>pixelformats()\<close> lists its encodings,
  \<^verbatim>\<open>sizes(format)\<close> the sizes advertised for one encoding (none for an encoding
  that is not advertised).
\<close>

type_synonym StreamFormats = "(PixelFormat \<times> Size list) list"

definition pixelformats :: "StreamFormats \<Rightarrow> PixelFormat list" where
  "pixelformats fs = map fst fs"

definition sizes :: "StreamFormats \<Rightarrow> PixelFormat \<Rightarrow> Size list" where
  "sizes fs f = (case map_of fs f of None \<Rightarrow> [] | Some l \<Rightarrow> l)"

record StreamConfiguration =
  cfg_pixelFormat :: PixelFormat
  cfg_size :: Size
  cfg_bufferCount :: u32
  cfg_formats :: StreamFormats

subsection \<open>The static format table\<close>

record PixelFormatPlaneInfo =
  bitsPerPixel :: u32
  hSubSampling :: u32
  vSubSampling :: u32

record PixelFormatInfo =
  format :: PixelFormat
  v4l2Format :: u32
  numPlanes :: u32
  planes :: "PixelFormatPlaneInfo list"

definition plane :: "u32 \<Rightarrow> u32 \<Rightarrow> u32 \<Rightarrow> PixelFormatPlaneInfo" where
  "plane b h v = \<lparr>bitsPerPixel = b, hSubSampling = h, vSubSampling = v\<rparr>"

definition info :: "PixelFormat \<Rightarrow> u32 \<Rightarrow> u32 \<Rightarrow> PixelFormatPlaneInfo list \<Rightarrow> PixelFormatInfo" where
  "info f v n ps = \<lparr>format = f, v4l2Format = v, numPlanes = n, planes = ps\<rparr>"

definition pixelFormatInfo :: "PixelFormatInfo list" where
  "pixelFormatInfo =
   [ info formats_RGB888 V4L2_PIX_FMT_BGR24 1 [plane 24 1 1, plane 0 0 0, plane 0 0 0],
     info formats_BGR888 V4L2_PIX_FMT_RGB24 1 [plane 24 1 1, plane 0 0 0, plane 0 0 0],
     info formats_BGRA8888 V4L2_PIX_FMT_ARGB32 1 [plane 32 1 1, plane 0 0 0, plane 0 0 0],
     info formats_UYVY V4L2_PIX_FMT_UYVY 1 [plane 16 1 1, plane 0 0 0, plane 0 0 0],
     info formats_VYUY V4L2_PIX_FMT_VYUY 1 [plane 16 1 1, plane 0 0 0, plane 0 0 0],
     info formats_YUYV V4L2_PIX_FMT_YUYV 1 [plane 16 1 1, plane 0 0 0, plane 0 0 0],
     info formats_YVYU V4L2_PIX_FMT_YVYU 1 [plane 16 1 1, plane 0 0 0, plane 0 0 0],
     info formats_NV12 V4L2_PIX_FMT_NV12 2 [plane 8 1 1, plane 16 2 2, plane 0 0 0],
     info formats_NV21 V4L2_PIX_FMT_NV21 2 [plane 8 1 1, plane 16 2 2, plane 0 0 0],
     info formats_NV16 V4L2_PIX_FMT_NV16 2 [plane 8 1 1, plane 16 2 1, plane 0 0 0],
     info formats_NV61 V4L2_PIX_FMT_NV61 2 [plane 8 1 1, plane 16 2 1, plane 0 0 0],
     info formats_NV24 V4L2_PIX_FMT_NV24 2 [plane 8 1 1, plane 16 1 1, plane 0 0 0],
     info formats_NV42 V4L2_PIX_FMT_NV42 2 [plane 8 1 1, plane 16 1 1, plane 0 0 0],
     info formats_YUV420 V4L2_PIX_FMT_YUV420 3 [plane 8 1 1, plane 8 2 2, plane 8 2 2],
     info formats_YUV422 V4L2_PIX_FMT_YUV422P 3 [plane 8 1 1, plane 8 2 1, plane 8 2 1],
     info formats_MJPEG V4L2_PIX_FMT_MJPEG 1 [plane 16 1 1, plane 0 0 0, plane 0 0 0] ]"

definition bplMultiplier :: "u32 \<Rightarrow> u32" where
  "bplMultiplier fmt =
     (case find (\<lambda>i. v4l2Format i = fmt) pixelFormatInfo of
        None \<Rightarrow> 0
      | Some i \<Rightarrow> bitsPerPixel (planes i ! 0) div 8)"

text \<open>
  The loop of \<^verbatim>\<open>imageSize\<close> adds one term per plane; every entry of the table has
  three planes and at most three are counted, so no plane is read out of range.
\<close>

definition plane_multiplier :: "PixelFormatInfo \<Rightarrow> u32" where
  "plane_multiplier i =
     fold (\<lambda>k m. m + bitsPerPixel (planes i ! k) div hSubSampling (planes i ! k)
                        div vSubSampling (planes i ! k))
          [0 ..< unat (numPlanes i)] 0"

definition imageSize :: "u32 \<Rightarrow> u32 \<Rightarrow> u32 \<Rightarrow> u32" where
  "imageSize fmt w h =
     (case find (\<lambda>i. v4l2Format i = fmt) pixelFormatInfo of
        None \<Rightarrow> 0
      | Some i \<Rightarrow> w * h * plane_multiplier i div 8)"

definition v4l2ToDrm :: "u32 \<Rightarrow> PixelFormat" where
  "v4l2ToDrm fmt =
     (case find (\<lambda>i. v4l2Format i = fmt) pixelFormatInfo of
        None \<Rightarrow> PixelFormat_default
      | Some i \<Rightarrow> format i)"

definition drmToV4L2 :: "PixelFormat \<Rightarrow> u32" where
  "drmToV4L2 f =
     (case find (\<lambda>i. format i = f) pixelFormatInfo of
        None \<Rightarrow> fourcc f
      | Some i \<Rightarrow> v4l2Format i)"

subsection \<open>The V4L2 structures the handlers read and write\<close>

record v4l2_pix_format =
  pix_width :: u32
  pix_height :: u32
  pixelformat :: u32
  pix_field :: u32
  bytesperline :: u32
  sizeimage :: u32
  colorspace :: u32
  priv :: u32
  pix_flags :: u32
  ycbcr_enc :: u32
  quantization :: u32
  xfer_func :: u32

text \<open>\<^verbatim>\<open>struct v4l2_format\<close>: the type and, of the union, the member \<^verbatim>\<open>fmt.pix\<close>.\<close>

record v4l2_format =
  fmt_type :: u32
  fmt_pix :: v4l2_pix_format

subsection \<open>Format negotiation\<close>

text \<open>
  \<^verbatim>\<open>tryFormat\<close> reads element 0 of the advertised encodings, or of the sizes of the
  negotiated encoding, when the request is not among them: undefined when that list is
  empty.
\<close>

definition first_or_undefined :: "'a list \<Rightarrow> 'a outcome" where
  "first_or_undefined xs = (case xs of [] \<Rightarrow> Undefined | x # _ \<Rightarrow> Returns x)"

definition tryFormat :: "StreamConfiguration \<Rightarrow> v4l2_format \<Rightarrow> v4l2_format outcome" where
  "tryFormat streamConfig arg =
     (let fmt0 = v4l2ToDrm (pixelformat (fmt_pix arg));
          fmts = pixelformats (cfg_formats streamConfig)
      in bind_outcome (if fmt0 \<notin> set fmts then first_or_undefined fmts else Returns fmt0)
        (\<lambda>fmt.
      let size0 = Size_of (pix_width (fmt_pix arg)) (pix_height (fmt_pix arg));
          szs = sizes (cfg_formats streamConfig) fmt
      in bind_outcome (if size0 \<notin> set szs then first_or_undefined szs else Returns size0)
        (\<lambda>sz.
      Returns (arg\<lparr>fmt_pix := (fmt_pix arg)
        \<lparr>pix_width := width sz,
         pix_height := height sz,
         pixelformat := drmToV4L2 fmt,
         pix_field := V4L2_FIELD_NONE,
         bytesperline := bplMultiplier (drmToV4L2 fmt) * width sz,
         sizeimage := imageSize (drmToV4L2 fmt) (width sz) (height sz),
         colorspace := V4L2_COLORSPACE_SRGB,
         priv := V4L2_PIX_FMT_PRIV_MAGIC,
         ycbcr_enc := V4L2_YCBCR_ENC_DEFAULT,
         quantization := V4L2_QUANTIZATION_DEFAULT,
         xfer_func := V4L2_XFER_FUNC_DEFAULT\<rparr>\<rparr>))))"

subsection \<open>The other V4L2 structures\<close>

text \<open>
  Of each structure the members that the proxy reads or writes; reserved members, which
  it only clears, are left out.
\<close>

record v4l2_capability =
  cap_driver :: string
  cap_card :: string
  cap_bus_info :: string
  cap_version :: u32
  cap_capabilities :: u32
  cap_device_caps :: u32

record v4l2_frmsizeenum =
  fse_index :: u32
  fse_pixel_format :: u32
  fse_type :: u32
  fse_discrete_width :: u32
  fse_discrete_height :: u32

record v4l2_fmtdesc =
  fd_index :: u32
  fd_type :: u32
  fd_flags :: u32
  fd_description :: string
  fd_pixelformat :: u32

record v4l2_input =
  in_index :: u32
  in_name :: string
  in_type :: u32
  in_audioset :: u32
  in_tuner :: u32
  in_std :: u64
  in_status :: u32
  in_capabilities :: u32

record v4l2_requestbuffers =
  rb_count :: u32
  rb_type :: u32
  rb_memory :: u32
  rb_capabilities :: u32

record v4l2_buffer =
  buf_index :: u32
  buf_type :: u32
  buf_bytesused :: u32
  buf_flags :: u32
  buf_field :: u32
  buf_tv_sec :: u64
  buf_tv_usec :: u64
  buf_sequence :: u32
  buf_memory :: u32
  buf_offset :: u32
  buf_length :: u32

text \<open>\<^verbatim>\<open>struct v4l2_buffer buf = {}\<close>: every member zero.\<close>

definition v4l2_buffer_zero :: v4l2_buffer where
  "v4l2_buffer_zero =
     \<lparr>buf_index = 0, buf_type = 0, buf_bytesused = 0, buf_flags = 0, buf_field = 0,
      buf_tv_sec = 0, buf_tv_usec = 0, buf_sequence = 0, buf_memory = 0, buf_offset = 0,
      buf_length = 0\<rparr>"

subsection \<open>Completed frames (FrameMetadata, V4L2Camera::Buffer)\<close>

datatype FrameStatus = FrameSuccess | FrameError | FrameCancelled

record FrameMetadata =
  fmd_status :: FrameStatus
  fmd_sequence :: u32
  fmd_timestamp :: u64
  fmd_planes :: "u32 list"

text \<open>An element of \<open>fmd_planes\<close> is the \<^verbatim>\<open>bytesused\<close> of one plane.\<close>

record Buffer =
  buffer_index :: u32
  buffer_data :: FrameMetadata

subsection \<open>Open files (V4L2CameraFile)\<close>

text \<open>
  A \<^verbatim>\<open>V4L2CameraFile *\<close> is an identifier; the objects live outside the proxy, in a
  store that the handlers read through the pointer. Of a file the proxy reads
  \<^verbatim>\<open>priority()\<close>, \<^verbatim>\<open>nonBlocking()\<close> and \<^verbatim>\<open>efd()\<close>, and writes the
  priority with \<^verbatim>\<open>setPriority\<close>.
\<close>

type_synonym file_id = nat

record V4L2CameraFile =
  file_priority :: u32
  file_nonBlocking :: bool
  file_efd :: int

type_synonym file_store = "file_id \<Rightarrow> V4L2CameraFile"

subsection \<open>The backend camera (V4L2Camera)\<close>

text \<open>
  Modelled from the spec: v4l2\_camera.cpp is not among the sources. Of the backend the
  model keeps the running flag (\<^verbatim>\<open>isRunning_\<close> of v4l2\_camera.h); what its other
  calls answer is given to each handler in a record of answers, one field per call, so
  that every theorem holds for whatever the backend answers.
  \<^item> \<open>configure_config\<close> is \<^verbatim>\<open>*streamConfigOut\<close> as \<^verbatim>\<open>configure\<close> leaves it;
  \<^item> \<open>completed\<close> is what \<^verbatim>\<open>completedBuffers()\<close> returns, in the order the
    completion callbacks arrived;
  \<^item> \<open>bufferAvailable\<close> is the answer of \<^verbatim>\<open>isBufferAvailable()\<close>, and for a blocking
    file whether a completion is pending when \<^verbatim>\<open>waitForBufferAvailable()\<close> is
    entered;
  \<^item> \<open>mmap_ret\<close> is what the \<^verbatim>\<open>mmap\<close> of the C library returns, \<open>None\<close> for
    \<^verbatim>\<open>MAP_FAILED\<close>.

  \<^verbatim>\<open>bind\<close>, \<^verbatim>\<open>unbind\<close>, \<^verbatim>\<open>freeBuffers\<close> and \<^verbatim>\<open>close\<close> return nothing
  and touch nothing that the proxy reads, so they do not appear.
\<close>

record V4L2Camera =
  isRunning_m :: bool

record backend =
  open_ret :: int
  open_config :: StreamConfiguration
  configure_ret :: int
  configure_config :: StreamConfiguration
  allocBuffers_ret :: int
  qbuf_ret :: int
  streamOn_ret :: int
  streamOff_ret :: int
  completed :: "Buffer list"
  bufferAvailable :: bool
  bufferFd_valid :: bool
  mmap_ret :: "u64 option"

text \<open>
  Modelled from the spec: \<^verbatim>\<open>V4L2Camera::streamOn\<close> begins capture and
  \<^verbatim>\<open>V4L2Camera::streamOff\<close> halts it; a call that reports a failure (a negative
  code) leaves the running flag as it was.
\<close>

definition vcam_streamOn :: "V4L2Camera \<Rightarrow> int \<Rightarrow> int \<times> V4L2Camera" where
  "vcam_streamOn v ret = (if ret < 0 then (ret, v) else (ret, v\<lparr>isRunning_m := True\<rparr>))"

definition vcam_streamOff :: "V4L2Camera \<Rightarrow> int \<Rightarrow> int \<times> V4L2Camera" where
  "vcam_streamOff v ret = (if ret < 0 then (ret, v) else (ret, v\<lparr>isRunning_m := False\<rparr>))"

text \<open>
  Modelled from the spec: \<^verbatim>\<open>waitForBufferAvailable\<close> is the blocking wait until at
  least one completion is pending; it also returns once the stream has stopped. With
  one thread of control nothing changes while the caller waits, so a wait that finds
  neither stays suspended.
\<close>

definition waitForBufferAvailable :: "V4L2Camera \<Rightarrow> bool \<Rightarrow> unit outcome" where
  "waitForBufferAvailable v avail = (if avail \<or> \<not> isRunning_m v then Returns () else Blocked)"

subsection \<open>The proxy\<close>

record V4L2CameraProxy =
  refcount_m :: u32
  index_m :: u32
  curV4L2Format_m :: v4l2_format
  streamConfig_m :: StreamConfiguration
  bufferCount_m :: u32
  currentBuf_m :: u32
  sizeimage_m :: u32
  capabilities_m :: v4l2_capability
  buffers_m :: "v4l2_buffer list"
  mmaps_m :: "(u64 \<times> u32) list"
  files_m :: "file_id list"
  vcam_m :: V4L2Camera
  owner_m :: "file_id option"

text \<open>
  \<^verbatim>\<open>std::set::insert\<close> and \<^verbatim>\<open>erase\<close> on the set of open files, kept as a list
  without repetition. The proxy looks only for the greatest priority in it, which does
  not depend on the order.
\<close>

definition set_insert :: "'a \<Rightarrow> 'a list \<Rightarrow> 'a list" where
  "set_insert x xs = (if x \<in> set xs then xs else x # xs)"

definition set_erase :: "'a \<Rightarrow> 'a list \<Rightarrow> 'a list" where
  "set_erase x xs = filter (\<lambda>y. y \<noteq> x) xs"

text \<open>\<^verbatim>\<open>mmaps_[map] = index\<close> and \<^verbatim>\<open>mmaps_.erase(iter)\<close> on the map of mappings.\<close>

definition map_assign :: "'k \<Rightarrow> 'v \<Rightarrow> ('k \<times> 'v) list \<Rightarrow> ('k \<times> 'v) list" where
  "map_assign k v m = (k, v) # filter (\<lambda>p. fst p \<noteq> k) m"

definition map_erase :: "'k \<Rightarrow> ('k \<times> 'v) list \<Rightarrow> ('k \<times> 'v) list" where
  "map_erase k m = filter (\<lambda>p. fst p \<noteq> k) m"

definition validateBufferType :: "u32 \<Rightarrow> bool" where
  "validateBufferType t = (t = V4L2_BUF_TYPE_VIDEO_CAPTURE)"

definition validateMemoryType :: "u32 \<Rightarrow> bool" where
  "validateMemoryType m = (m = V4L2_MEMORY_MMAP)"

definition setFmtFromConfig :: "V4L2CameraProxy \<Rightarrow> StreamConfiguration \<Rightarrow> V4L2CameraProxy" where
  "setFmtFromConfig s streamConfig =
     (let w = width (cfg_size streamConfig);
          h = height (cfg_size streamConfig);
          pf = drmToV4L2 (cfg_pixelFormat streamConfig)
      in s\<lparr>curV4L2Format_m := (curV4L2Format_m s)\<lparr>fmt_pix := (fmt_pix (curV4L2Format_m s))
        \<lparr>pix_width := w,
         pix_height := h,
         pixelformat := pf,
         pix_field := V4L2_FIELD_NONE,
         bytesperline := bplMultiplier pf * w,
         sizeimage := imageSize pf w h,
         colorspace := V4L2_COLORSPACE_SRGB,
         priv := V4L2_PIX_FMT_PRIV_MAGIC,
         ycbcr_enc := V4L2_YCBCR_ENC_DEFAULT,
         quantization := V4L2_QUANTIZATION_DEFAULT,
         xfer_func := V4L2_XFER_FUNC_DEFAULT\<rparr>\<rparr>\<rparr>)"

definition calculateSizeImage :: "StreamConfiguration \<Rightarrow> u32" where
  "calculateSizeImage streamConfig =
     imageSize (drmToV4L2 (cfg_pixelFormat streamConfig))
       (width (cfg_size streamConfig)) (height (cfg_size streamConfig))"

text \<open>\<^verbatim>\<open>utils::strlcpy(dst, src, size)\<close> keeps at most \<open>size - 1\<close> characters.\<close>

definition strlcpy :: "string \<Rightarrow> nat \<Rightarrow> string" where
  "strlcpy src n = take (n - 1) src"

fun to_string :: "nat \<Rightarrow> string" where
  "to_string n =
     (if n < 10 then [char_of (48 + n)]
      else to_string (n div 10) @ [char_of (48 + n mod 10)])"

definition KERNEL_VERSION :: "u32 \<Rightarrow> u32 \<Rightarrow> u32 \<Rightarrow> u32" where
  "KERNEL_VERSION a b c = push_bit 16 a + push_bit 8 b + c"

definition querycap :: "u32 \<Rightarrow> string \<Rightarrow> v4l2_capability" where
  "querycap idx camera_name =
     (let driver = ''libcamera'';
          bus_info = driver @ '':'' @ to_string (unat idx);
          device_caps = V4L2_CAP_VIDEO_CAPTURE OR V4L2_CAP_STREAMING OR V4L2_CAP_EXT_PIX_FORMAT
      in \<lparr>cap_driver = strlcpy driver 16,
          cap_card = strlcpy camera_name 32,
          cap_bus_info = strlcpy bus_info 32,
          cap_version = KERNEL_VERSION 5 2 0,
          cap_capabilities = device_caps OR V4L2_CAP_DEVICE_CAPS,
          cap_device_caps = device_caps\<rparr>)"

text \<open>A default-constructed \<^verbatim>\<open>StreamConfiguration\<close>.\<close>

definition StreamConfiguration_zero :: StreamConfiguration where
  "StreamConfiguration_zero =
     \<lparr>cfg_pixelFormat = PixelFormat_default, cfg_size = Size_of 0 0, cfg_bufferCount = 0,
      cfg_formats = []\<rparr>"

text \<open>A format of zeros, the first value that the examples take.\<close>

definition v4l2_format_zero :: v4l2_format where
  "v4l2_format_zero =
     \<lparr>fmt_type = 0,
      fmt_pix = \<lparr>pix_width = 0, pix_height = 0, pixelformat = 0, pix_field = 0,
        bytesperline = 0, sizeimage = 0, colorspace = 0, priv = 0, pix_flags = 0,
        ycbcr_enc = 0, quantization = 0, xfer_func = 0\<rparr>\<rparr>"

text \<open>
  The constructor. Its initialiser list names neither \<^verbatim>\<open>curV4L2Format_\<close> nor
  \<^verbatim>\<open>sizeimage_\<close>, so both start with indeterminate values, which are the last two
  arguments here. \<open>open\<close> assigns the frame size and the members of the pixel format
  that \<open>setFmtFromConfig\<close> writes; the buffer type and the flags of the current format
  keep their first value. The stream configuration is default-constructed.
\<close>

definition V4L2CameraProxy_new ::
  "u32 \<Rightarrow> string \<Rightarrow> v4l2_format \<Rightarrow> u32 \<Rightarrow> V4L2CameraProxy" where
  "V4L2CameraProxy_new idx camera_name format0 sizeimage0 =
     \<lparr>refcount_m = 0, index_m = idx, curV4L2Format_m = format0,
      streamConfig_m = StreamConfiguration_zero, bufferCount_m = 0, currentBuf_m = 0,
      sizeimage_m = sizeimage0, capabilities_m = querycap idx camera_name, buffers_m = [],
      mmaps_m = [], files_m = [], vcam_m = \<lparr>isRunning_m = False\<rparr>, owner_m = None\<rparr>"

subsection \<open>Ownership and priority\<close>

definition hasOwnership :: "V4L2CameraProxy \<Rightarrow> file_id \<Rightarrow> bool" where
  "hasOwnership s file = (owner_m s = Some file)"

definition acquire :: "V4L2CameraProxy \<Rightarrow> file_id \<Rightarrow> int \<times> V4L2CameraProxy" where
  "acquire s file =
     (if owner_m s = Some file then (0, s)
      else if owner_m s \<noteq> None then (- EBUSY, s)
      else (0, s\<lparr>owner_m := Some file\<rparr>))"

definition release :: "V4L2CameraProxy \<Rightarrow> file_id \<Rightarrow> V4L2CameraProxy" where
  "release s file = (if owner_m s \<noteq> Some file then s else s\<lparr>owner_m := None\<rparr>)"

text \<open>
  \<^verbatim>\<open>std::max_element\<close> returns the first element that no later one exceeds, and
  \<^verbatim>\<open>end()\<close> on an empty set. The comparator of \<^verbatim>\<open>maxPriority\<close> is
  \<^verbatim>\<open>a->priority() < b->priority()\<close>, on promoted operands.
\<close>

fun max_element :: "('a \<Rightarrow> 'a \<Rightarrow> bool) \<Rightarrow> 'a \<Rightarrow> 'a list \<Rightarrow> 'a" where
  "max_element lt m [] = m"
| "max_element lt m (x # xs) = max_element lt (if lt m x then x else m) xs"

definition maxPriority :: "file_store \<Rightarrow> V4L2CameraProxy \<Rightarrow> u32" where
  "maxPriority files s =
     (case files_m s of
        [] \<Rightarrow> V4L2_PRIORITY_UNSET
      | f # fs \<Rightarrow>
          file_priority
            (files (max_element
               (\<lambda>a b. priority_less (file_priority (files a)) (file_priority (files b))) f fs)))"

subsection \<open>Opening and closing\<close>

definition "open" :: "V4L2CameraProxy \<Rightarrow> file_id \<Rightarrow> backend \<Rightarrow> int \<times> V4L2CameraProxy" where
  "open s file b =
     (let s1 = s\<lparr>refcount_m := refcount_m s + 1\<rparr>
      in if refcount_m s \<noteq> 0 then (0, s1\<lparr>files_m := set_insert file (files_m s1)\<rparr>)
         else if open_ret b < 0 then (open_ret b, s1\<lparr>refcount_m := refcount_m s1 - 1\<rparr>)
         else
           let s2 = s1\<lparr>streamConfig_m := open_config b\<rparr>;
               s3 = setFmtFromConfig s2 (streamConfig_m s2);
               s4 = s3\<lparr>sizeimage_m := calculateSizeImage (streamConfig_m s3)\<rparr>
           in (0, s4\<lparr>files_m := set_insert file (files_m s4)\<rparr>))"

definition close :: "V4L2CameraProxy \<Rightarrow> file_id \<Rightarrow> V4L2CameraProxy" where
  "close s file =
     (let s1 = s\<lparr>files_m := set_erase file (files_m s)\<rparr>;
          s2 = release s1 file
      in s2\<lparr>refcount_m := refcount_m s2 - 1\<rparr>)"

subsection \<open>Memory mappings\<close>

text \<open>
  C division truncates towards zero. In \<^verbatim>\<open>offset / sizeimage_\<close> the offset is a
  signed 64-bit \<^verbatim>\<open>off64_t\<close> and the frame size is converted to it; the quotient is
  then cut to an \<^verbatim>\<open>unsigned int\<close>. A zero frame size is a division by zero.
\<close>

definition c_div :: "int \<Rightarrow> int \<Rightarrow> int" where
  "c_div a b = sgn a * sgn b * (\<bar>a\<bar> div \<bar>b\<bar>)"

definition PROT_READ :: u32 where "PROT_READ = 1"
definition PROT_WRITE :: u32 where "PROT_WRITE = 2"

definition mmap ::
  "V4L2CameraProxy \<Rightarrow> u64 \<Rightarrow> u64 \<Rightarrow> u32 \<Rightarrow> u32 \<Rightarrow> int \<Rightarrow> backend
     \<Rightarrow> (u64 option \<times> int option \<times> V4L2CameraProxy) outcome" where
  "mmap s addr len prot flags offset b =
     (if prot \<noteq> (PROT_READ OR PROT_WRITE) then Returns (None, Some EINVAL, s)
      else if sizeimage_m s = 0 then Undefined
      else
        let index = (word_of_int (c_div offset (uint (sizeimage_m s))) :: u32)
        in if uint (index * sizeimage_m s) \<noteq> offset \<or> len \<noteq> ucast (sizeimage_m s)
           then Returns (None, Some EINVAL, s)
           else if \<not> bufferFd_valid b then Returns (None, Some EINVAL, s)
           else case mmap_ret b of
               None \<Rightarrow> Returns (None, None, s)
             | Some m \<Rightarrow>
                 if length (buffers_m s) \<le> unat index then Undefined
                 else Returns (Some m, None,
                   s\<lparr>buffers_m := (buffers_m s)[unat index := (buffers_m s ! unat index)
                        \<lparr>buf_flags := buf_flags (buffers_m s ! unat index) OR V4L2_BUF_FLAG_MAPPED\<rparr>],
                     mmaps_m := map_assign m index (mmaps_m s)\<rparr>))"

definition munmap ::
  "V4L2CameraProxy \<Rightarrow> u64 \<Rightarrow> u64 \<Rightarrow> (int \<times> int option \<times> V4L2CameraProxy) outcome" where
  "munmap s addr len =
     (case map_of (mmaps_m s) addr of
        None \<Rightarrow> Returns (- 1, Some EINVAL, s)
      | Some index \<Rightarrow>
          if len \<noteq> ucast (sizeimage_m s) then Returns (- 1, Some EINVAL, s)
          else if length (buffers_m s) \<le> unat index then Undefined
          else Returns (0, None,
            s\<lparr>buffers_m := (buffers_m s)[unat index := (buffers_m s ! unat index)
                 \<lparr>buf_flags := buf_flags (buffers_m s ! unat index) AND NOT V4L2_BUF_FLAG_MAPPED\<rparr>],
              mmaps_m := map_erase addr (mmaps_m s)\<rparr>))"

subsection \<open>Draining the completed buffers\<close>

text \<open>
  The loop of \<^verbatim>\<open>updateBuffers\<close> over what \<^verbatim>\<open>completedBuffers()\<close> returned.
  \<^verbatim>\<open>buffers_[buffer.index]\<close> and \<^verbatim>\<open>fmd.planes[0]\<close> are unchecked reads of a
  vector.
\<close>

fun updateBuffers_loop :: "Buffer list \<Rightarrow> v4l2_buffer list \<Rightarrow> v4l2_buffer list outcome" where
  "updateBuffers_loop [] bufs = Returns bufs"
| "updateBuffers_loop (buffer # rest) bufs =
     (let fmd = buffer_data buffer; i = unat (buffer_index buffer)
      in if length bufs \<le> i then Undefined
         else
           let buf = bufs ! i
           in case fmd_status fmd of
               FrameSuccess \<Rightarrow>
                 (case fmd_planes fmd of
                    [] \<Rightarrow> Undefined
                  | bytesused # _ \<Rightarrow>
                      updateBuffers_loop rest (bufs[i := buf
                        \<lparr>buf_bytesused := bytesused,
                         buf_flags := buf_flags buf OR V4L2_BUF_FLAG_DONE,
                         buf_field := V4L2_FIELD_NONE,
                         buf_tv_sec := fmd_timestamp fmd div 1000000000,
                         buf_tv_usec := fmd_timestamp fmd mod 1000000,
                         buf_sequence := fmd_sequence fmd\<rparr>]))
             | FrameError \<Rightarrow>
                 updateBuffers_loop rest
                   (bufs[i := buf\<lparr>buf_flags := buf_flags buf OR V4L2_BUF_FLAG_ERROR\<rparr>])
             | FrameCancelled \<Rightarrow> updateBuffers_loop rest bufs)"

definition updateBuffers :: "V4L2CameraProxy \<Rightarrow> backend \<Rightarrow> V4L2CameraProxy outcome" where
  "updateBuffers s b =
     bind_outcome (updateBuffers_loop (completed b) (buffers_m s))
       (\<lambda>bufs. Returns (s\<lparr>buffers_m := bufs\<rparr>))"

subsection \<open>The ioctl handlers\<close>

definition vidioc_querycap ::
  "V4L2CameraProxy \<Rightarrow> v4l2_capability \<Rightarrow> (int \<times> V4L2CameraProxy \<times> v4l2_capability) outcome" where
  "vidioc_querycap s arg = Returns (0, s, capabilities_m s)"

definition vidioc_enum_framesizes ::
  "V4L2CameraProxy \<Rightarrow> file_id \<Rightarrow> v4l2_frmsizeenum
     \<Rightarrow> (int \<times> V4L2CameraProxy \<times> v4l2_frmsizeenum) outcome" where
  "vidioc_enum_framesizes s file arg =
     (let argFormat = v4l2ToDrm (fse_pixel_format arg);
          frameSizes = sizes (cfg_formats (streamConfig_m s)) argFormat
      in if length frameSizes \<le> unat (fse_index arg) then Returns (- EINVAL, s, arg)
         else Returns (0, s, arg
           \<lparr>fse_type := V4L2_FRMSIZE_TYPE_DISCRETE,
            fse_discrete_width := width (frameSizes ! unat (fse_index arg)),
            fse_discrete_height := height (frameSizes ! unat (fse_index arg))\<rparr>))"

definition vidioc_enum_fmt ::
  "V4L2CameraProxy \<Rightarrow> file_id \<Rightarrow> v4l2_fmtdesc \<Rightarrow> (int \<times> V4L2CameraProxy \<times> v4l2_fmtdesc) outcome" where
  "vidioc_enum_fmt s file arg =
     (if \<not> validateBufferType (fd_type arg) \<or>
         length (pixelformats (cfg_formats (streamConfig_m s))) \<le> unat (fd_index arg)
      then Returns (- EINVAL, s, arg)
      else Returns (0, s, arg
        \<lparr>fd_flags := 0,
         fd_description := strlcpy ''Video Format Description'' 32,
         fd_pixelformat :=
           drmToV4L2 (pixelformats (cfg_formats (streamConfig_m s)) ! unat (fd_index arg))\<rparr>))"

definition vidioc_g_fmt ::
  "V4L2CameraProxy \<Rightarrow> file_id \<Rightarrow> v4l2_format \<Rightarrow> (int \<times> V4L2CameraProxy \<times> v4l2_format) outcome" where
  "vidioc_g_fmt s file arg =
     (if \<not> validateBufferType (fmt_type arg) then Returns (- EINVAL, s, arg)
      else Returns (0, s, arg\<lparr>fmt_pix := fmt_pix (curV4L2Format_m s)\<rparr>))"

definition vidioc_s_fmt ::
  "V4L2CameraProxy \<Rightarrow> file_store \<Rightarrow> file_id \<Rightarrow> v4l2_format \<Rightarrow> backend
     \<Rightarrow> (int \<times> V4L2CameraProxy \<times> v4l2_format) outcome" where
  "vidioc_s_fmt s files file arg b =
     (if \<not> validateBufferType (fmt_type arg) then Returns (- EINVAL, s, arg)
      else if priority_less (file_priority (files file)) (maxPriority files s)
        then Returns (- EBUSY, s, arg)
      else case acquire s file of (ret, s1) \<Rightarrow>
        if ret < 0 then Returns (ret, s1, arg)
        else bind_outcome (tryFormat (streamConfig_m s1) arg) (\<lambda>arg1.
          let s2 = s1\<lparr>streamConfig_m := configure_config b\<rparr>
          in if configure_ret b < 0 then Returns (- EINVAL, s2, arg1)
             else
               let sizeimage = calculateSizeImage (streamConfig_m s2)
               in if sizeimage = 0 then Returns (- EINVAL, s2, arg1)
                  else Returns (0,
                    setFmtFromConfig (s2\<lparr>sizeimage_m := sizeimage\<rparr>) (streamConfig_m s2),
                    arg1)))"

definition vidioc_try_fmt ::
  "V4L2CameraProxy \<Rightarrow> file_id \<Rightarrow> v4l2_format \<Rightarrow> (int \<times> V4L2CameraProxy \<times> v4l2_format) outcome" where
  "vidioc_try_fmt s file arg =
     (if \<not> validateBufferType (fmt_type arg) then Returns (- EINVAL, s, arg)
      else bind_outcome (tryFormat (streamConfig_m s) arg) (\<lambda>arg1. Returns (0, s, arg1)))"

definition vidioc_g_priority ::
  "V4L2CameraProxy \<Rightarrow> file_store \<Rightarrow> file_id \<Rightarrow> u32 \<Rightarrow> (int \<times> V4L2CameraProxy \<times> u32) outcome" where
  "vidioc_g_priority s files file arg = Returns (0, s, maxPriority files s)"

text \<open>
  \<^verbatim>\<open>vidioc_s_priority\<close> writes the priority into the file object, so it returns the
  store of files; the proxy itself is left as it is.
\<close>

definition vidioc_s_priority ::
  "V4L2CameraProxy \<Rightarrow> file_store \<Rightarrow> file_id \<Rightarrow> u32 \<Rightarrow> int \<times> file_store" where
  "vidioc_s_priority s files file arg =
     (if priority_less V4L2_PRIORITY_RECORD arg then (- EINVAL, files)
      else if priority_less (file_priority (files file)) (maxPriority files s) then (- EBUSY, files)
      else (0, files(file := (files file)\<lparr>file_priority := arg\<rparr>)))"

definition vidioc_enuminput ::
  "V4L2CameraProxy \<Rightarrow> file_id \<Rightarrow> v4l2_input \<Rightarrow> (int \<times> V4L2CameraProxy \<times> v4l2_input) outcome" where
  "vidioc_enuminput s file arg =
     (if in_index arg \<noteq> 0 then Returns (- EINVAL, s, arg)
      else Returns (0, s,
        \<lparr>in_index = 0, in_name = strlcpy (cap_card (capabilities_m s)) 32,
         in_type = V4L2_INPUT_TYPE_CAMERA, in_audioset = 0, in_tuner = 0, in_std = 0,
         in_status = 0, in_capabilities = 0\<rparr>))"

definition vidioc_g_input ::
  "V4L2CameraProxy \<Rightarrow> file_id \<Rightarrow> u32 \<Rightarrow> (int \<times> V4L2CameraProxy \<times> u32) outcome" where
  "vidioc_g_input s file arg = Returns (0, s, 0)"

definition vidioc_s_input ::
  "V4L2CameraProxy \<Rightarrow> file_id \<Rightarrow> u32 \<Rightarrow> (int \<times> V4L2CameraProxy \<times> u32) outcome" where
  "vidioc_s_input s file arg =
     (if arg \<noteq> 0 then Returns (- EINVAL, s, arg) else Returns (0, s, arg))"

definition freeBuffers :: "V4L2CameraProxy \<Rightarrow> V4L2CameraProxy" where
  "freeBuffers s = s\<lparr>buffers_m := [], bufferCount_m := 0\<rparr>"

text \<open>
  The slot that the loop of \<^verbatim>\<open>vidioc_reqbufs\<close> writes at position \<open>i\<close>; after
  \<^verbatim>\<open>buffers_.resize(arg->count)\<close> the loop overwrites every slot.
\<close>

definition new_buffer :: "V4L2CameraProxy \<Rightarrow> nat \<Rightarrow> v4l2_buffer" where
  "new_buffer s i =
     v4l2_buffer_zero
       \<lparr>buf_type := V4L2_BUF_TYPE_VIDEO_CAPTURE,
        buf_length := sizeimage (fmt_pix (curV4L2Format_m s)),
        buf_memory := V4L2_MEMORY_MMAP,
        buf_offset := of_nat i * sizeimage (fmt_pix (curV4L2Format_m s)),
        buf_index := of_nat i,
        buf_flags := V4L2_BUF_FLAG_TIMESTAMP_MONOTONIC\<rparr>"

definition vidioc_reqbufs ::
  "V4L2CameraProxy \<Rightarrow> file_store \<Rightarrow> file_id \<Rightarrow> v4l2_requestbuffers \<Rightarrow> backend
     \<Rightarrow> (int \<times> V4L2CameraProxy \<times> v4l2_requestbuffers) outcome" where
  "vidioc_reqbufs s files file arg b =
     (if \<not> validateBufferType (rb_type arg) \<or> \<not> validateMemoryType (rb_memory arg)
      then Returns (- EINVAL, s, arg)
      else if priority_less (file_priority (files file)) (maxPriority files s)
        then Returns (- EBUSY, s, arg)
      else if \<not> hasOwnership s file \<and> owner_m s \<noteq> None then Returns (- EBUSY, s, arg)
      else
        let arg1 = arg\<lparr>rb_capabilities := V4L2_BUF_CAP_SUPPORTS_MMAP\<rparr>
        in if rb_count arg1 = 0 then
             (if mmaps_m s \<noteq> [] then Returns (- EBUSY, s, arg1)
              else if isRunning_m (vcam_m s) then Returns (- EBUSY, s, arg1)
              else Returns (0, release (freeBuffers s) file, arg1))
           else
             let s1 = (if bufferCount_m s > 0 then freeBuffers s else s);
                 s2 = s1\<lparr>streamConfig_m := configure_config b\<rparr>
             in if configure_ret b < 0 then Returns (- EINVAL, s2, arg1)
                else
                  let s3 = s2\<lparr>sizeimage_m := calculateSizeImage (streamConfig_m s2)\<rparr>;
                      s4 = setFmtFromConfig s3 (streamConfig_m s3);
                      arg2 = arg1\<lparr>rb_count := cfg_bufferCount (streamConfig_m s4)\<rparr>;
                      s5 = s4\<lparr>bufferCount_m := rb_count arg2\<rparr>
                  in if allocBuffers_ret b < 0
                     then Returns (allocBuffers_ret b, s5, arg2\<lparr>rb_count := 0\<rparr>)
                     else
                       let s6 = s5\<lparr>buffers_m := map (new_buffer s5) [0 ..< unat (rb_count arg2)]\<rparr>
                       in Returns (0, snd (acquire s6 file), arg2))"

definition vidioc_querybuf ::
  "V4L2CameraProxy \<Rightarrow> file_id \<Rightarrow> v4l2_buffer \<Rightarrow> backend
     \<Rightarrow> (int \<times> V4L2CameraProxy \<times> v4l2_buffer) outcome" where
  "vidioc_querybuf s file arg b =
     (if buf_index arg \<ge> bufferCount_m s then Returns (- EINVAL, s, arg)
      else if \<not> validateBufferType (buf_type arg) \<or> buf_index arg \<ge> bufferCount_m s
      then Returns (- EINVAL, s, arg)
      else bind_outcome (updateBuffers s b) (\<lambda>s1.
        if length (buffers_m s1) \<le> unat (buf_index arg) then Undefined
        else Returns (0, s1, buffers_m s1 ! unat (buf_index arg))))"

definition vidioc_qbuf ::
  "V4L2CameraProxy \<Rightarrow> file_id \<Rightarrow> v4l2_buffer \<Rightarrow> backend
     \<Rightarrow> (int \<times> V4L2CameraProxy \<times> v4l2_buffer) outcome" where
  "vidioc_qbuf s file arg b =
     (let i = unat (buf_index arg)
      in if buf_index arg \<ge> bufferCount_m s then Returns (- EINVAL, s, arg)
         else if length (buffers_m s) \<le> i then Undefined
         else if buf_flags (buffers_m s ! i) AND V4L2_BUF_FLAG_QUEUED \<noteq> 0
         then Returns (- EINVAL, s, arg)
         else if \<not> hasOwnership s file then Returns (- EBUSY, s, arg)
         else if \<not> validateBufferType (buf_type arg) \<or> \<not> validateMemoryType (buf_memory arg) \<or>
                 buf_index arg \<ge> bufferCount_m s
         then Returns (- EINVAL, s, arg)
         else if qbuf_ret b < 0 then Returns (qbuf_ret b, s, arg)
         else
           let flags = buf_flags (buffers_m s ! i) OR V4L2_BUF_FLAG_QUEUED
           in Returns (qbuf_ret b,
                s\<lparr>buffers_m := (buffers_m s)[i := (buffers_m s ! i)\<lparr>buf_flags := flags\<rparr>]\<rparr>,
                arg\<lparr>buf_flags := flags\<rparr>))"

text \<open>
  \<^verbatim>\<open>vidioc_dqbuf\<close> from its second test of \<^verbatim>\<open>isRunning()\<close> on: the part that runs
  once the wait is over. The first test of the handler lets no call with a zero buffer
  count come this far, so the remainder is never taken modulo zero.
\<close>

definition dqbuf_dequeue ::
  "V4L2CameraProxy \<Rightarrow> v4l2_buffer \<Rightarrow> backend \<Rightarrow> (int \<times> V4L2CameraProxy \<times> v4l2_buffer) outcome" where
  "dqbuf_dequeue s arg b =
     (if \<not> isRunning_m (vcam_m s) then Returns (- EINVAL, s, arg)
      else bind_outcome (updateBuffers s b) (\<lambda>s1.
        let i = unat (currentBuf_m s1)
        in if length (buffers_m s1) \<le> i then Undefined
           else
             let buf = (buffers_m s1 ! i)
                   \<lparr>buf_flags := buf_flags (buffers_m s1 ! i)
                      AND NOT (V4L2_BUF_FLAG_QUEUED OR V4L2_BUF_FLAG_DONE),
                    buf_length := sizeimage_m s1\<rparr>
             in Returns (0,
                  s1\<lparr>buffers_m := (buffers_m s1)[i := buf],
                     currentBuf_m := (currentBuf_m s1 + 1) mod bufferCount_m s1\<rparr>,
                  buf)))"

definition vidioc_dqbuf ::
  "V4L2CameraProxy \<Rightarrow> file_store \<Rightarrow> file_id \<Rightarrow> v4l2_buffer \<Rightarrow> backend
     \<Rightarrow> (int \<times> V4L2CameraProxy \<times> v4l2_buffer) outcome" where
  "vidioc_dqbuf s files file arg b =
     (if buf_index arg \<ge> bufferCount_m s then Returns (- EINVAL, s, arg)
      else if \<not> hasOwnership s file then Returns (- EBUSY, s, arg)
      else if \<not> isRunning_m (vcam_m s) then Returns (- EINVAL, s, arg)
      else if \<not> validateBufferType (buf_type arg) \<or> \<not> validateMemoryType (buf_memory arg)
      then Returns (- EINVAL, s, arg)
      else if \<not> file_nonBlocking (files file)
      then bind_outcome (waitForBufferAvailable (vcam_m s) (bufferAvailable b))
             (\<lambda>_. dqbuf_dequeue s arg b)
      else if \<not> bufferAvailable b then Returns (- EAGAIN, s, arg)
      else dqbuf_dequeue s arg b)"

definition vidioc_streamon ::
  "V4L2CameraProxy \<Rightarrow> file_store \<Rightarrow> file_id \<Rightarrow> u32 \<Rightarrow> backend
     \<Rightarrow> (int \<times> V4L2CameraProxy \<times> u32) outcome" where
  "vidioc_streamon s files file arg b =
     (if bufferCount_m s = 0 then Returns (- EINVAL, s, arg)
      else if \<not> validateBufferType arg then Returns (- EINVAL, s, arg)
      else if priority_less (file_priority (files file)) (maxPriority files s)
        then Returns (- EBUSY, s, arg)
      else if \<not> hasOwnership s file then Returns (- EBUSY, s, arg)
      else if isRunning_m (vcam_m s) then Returns (0, s, arg)
      else
        let s1 = s\<lparr>currentBuf_m := 0\<rparr>
        in case vcam_streamOn (vcam_m s1) (streamOn_ret b) of
             (ret, v) \<Rightarrow> Returns (ret, s1\<lparr>vcam_m := v\<rparr>, arg))"

definition vidioc_streamoff ::
  "V4L2CameraProxy \<Rightarrow> file_store \<Rightarrow> file_id \<Rightarrow> u32 \<Rightarrow> backend
     \<Rightarrow> (int \<times> V4L2CameraProxy \<times> u32) outcome" where
  "vidioc_streamoff s files file arg b =
     (if \<not> validateBufferType arg then Returns (- EINVAL, s, arg)
      else if priority_less (file_priority (files file)) (maxPriority files s)
        then Returns (- EBUSY, s, arg)
      else if \<not> hasOwnership s file \<and> owner_m s \<noteq> None then Returns (- EBUSY, s, arg)
      else case vcam_streamOff (vcam_m s) (streamOff_ret b) of
        (ret, v) \<Rightarrow>
          Returns (ret,
            s\<lparr>vcam_m := v,
              buffers_m := map (\<lambda>buf. buf\<lparr>buf_flags := buf_flags buf
                AND NOT (V4L2_BUF_FLAG_QUEUED OR V4L2_BUF_FLAG_DONE)\<rparr>) (buffers_m s)\<rparr>,
            arg))"

subsection \<open>The dispatcher\<close>

text \<open>
  Request codes as linux/ioctl.h builds them (\<^verbatim>\<open>_IOC\<close>, \<^verbatim>\<open>_IOR\<close>, \<^verbatim>\<open>_IOW\<close>,
  \<^verbatim>\<open>_IOWR\<close>, \<^verbatim>\<open>_IOC_DIR\<close>, in the asm-generic layout), with the structure sizes of
  videodev2.h on a 64-bit target.
\<close>

definition IOC_WRITE :: u64 where "IOC_WRITE = 1"
definition IOC_READ :: u64 where "IOC_READ = 2"

definition IOC :: "u64 \<Rightarrow> char \<Rightarrow> u64 \<Rightarrow> u64 \<Rightarrow> u64" where
  "IOC dir type nr sz = push_bit 30 dir OR push_bit 8 (of_char type) OR nr OR push_bit 16 sz"

definition IOR :: "char \<Rightarrow> u64 \<Rightarrow> u64 \<Rightarrow> u64" where
  "IOR type nr sz = IOC IOC_READ type nr sz"

definition IOW :: "char \<Rightarrow> u64 \<Rightarrow> u64 \<Rightarrow> u64" where
  "IOW type nr sz = IOC IOC_WRITE type nr sz"

definition IOWR :: "char \<Rightarrow> u64 \<Rightarrow> u64 \<Rightarrow> u64" where
  "IOWR type nr sz = IOC (IOC_READ OR IOC_WRITE) type nr sz"

definition IOC_DIR :: "u64 \<Rightarrow> u64" where
  "IOC_DIR nr = drop_bit 30 nr AND 3"

definition VIDIOC_QUERYCAP :: u64 where "VIDIOC_QUERYCAP = IOR CHR ''V'' 0 104"
definition VIDIOC_ENUM_FMT :: u64 where "VIDIOC_ENUM_FMT = IOWR CHR ''V'' 2 64"
definition VIDIOC_G_FMT :: u64 where "VIDIOC_G_FMT = IOWR CHR ''V'' 4 208"
definition VIDIOC_S_FMT :: u64 where "VIDIOC_S_FMT = IOWR CHR ''V'' 5 208"
definition VIDIOC_REQBUFS :: u64 where "VIDIOC_REQBUFS = IOWR CHR ''V'' 8 20"
definition VIDIOC_QUERYBUF :: u64 where "VIDIOC_QUERYBUF = IOWR CHR ''V'' 9 88"
definition VIDIOC_QBUF :: u64 where "VIDIOC_QBUF = IOWR CHR ''V'' 15 88"
definition VIDIOC_DQBUF :: u64 where "VIDIOC_DQBUF = IOWR CHR ''V'' 17 88"
definition VIDIOC_STREAMON :: u64 where "VIDIOC_STREAMON = IOW CHR ''V'' 18 4"
definition VIDIOC_STREAMOFF :: u64 where "VIDIOC_STREAMOFF = IOW CHR ''V'' 19 4"
definition VIDIOC_ENUMINPUT :: u64 where "VIDIOC_ENUMINPUT = IOWR CHR ''V'' 26 80"
definition VIDIOC_S_CTRL :: u64 where "VIDIOC_S_CTRL = IOWR CHR ''V'' 28 8"
definition VIDIOC_G_INPUT :: u64 where "VIDIOC_G_INPUT = IOR CHR ''V'' 38 4"
definition VIDIOC_S_INPUT :: u64 where "VIDIOC_S_INPUT = IOWR CHR ''V'' 39 4"
definition VIDIOC_TRY_FMT :: u64 where "VIDIOC_TRY_FMT = IOWR CHR ''V'' 64 208"
definition VIDIOC_G_PRIORITY :: u64 where "VIDIOC_G_PRIORITY = IOR CHR ''V'' 67 4"
definition VIDIOC_S_PRIORITY :: u64 where "VIDIOC_S_PRIORITY = IOW CHR ''V'' 68 4"
definition VIDIOC_ENUM_FRAMESIZES :: u64 where "VIDIOC_ENUM_FRAMESIZES = IOWR CHR ''V'' 74 44"

definition supportedIoctls :: "u64 list" where
  "supportedIoctls =
   [ VIDIOC_QUERYCAP, VIDIOC_ENUM_FRAMESIZES, VIDIOC_ENUM_FMT, VIDIOC_G_FMT, VIDIOC_S_FMT,
     VIDIOC_TRY_FMT, VIDIOC_G_PRIORITY, VIDIOC_S_PRIORITY, VIDIOC_ENUMINPUT, VIDIOC_G_INPUT,
     VIDIOC_S_INPUT, VIDIOC_REQBUFS, VIDIOC_QUERYBUF, VIDIOC_QBUF, VIDIOC_DQBUF,
     VIDIOC_STREAMON, VIDIOC_STREAMOFF ]"

text \<open>
  The \<^verbatim>\<open>void *arg\<close> of \<^verbatim>\<open>ioctl\<close>: \<open>None\<close> is the null pointer, otherwise the object
  it points to. Each case of the switch casts the pointer to the structure of its
  request; a pointer to an object of another type is outside what C++ defines.
\<close>

datatype ioctl_arg =
    Arg_capability v4l2_capability
  | Arg_frmsizeenum v4l2_frmsizeenum
  | Arg_fmtdesc v4l2_fmtdesc
  | Arg_format v4l2_format
  | Arg_priority u32
  | Arg_input v4l2_input
  | Arg_int u32
  | Arg_requestbuffers v4l2_requestbuffers
  | Arg_buffer v4l2_buffer

text \<open>
  What the caller of \<^verbatim>\<open>ioctl\<close> sees: the value returned, \<^verbatim>\<open>errno\<close> when the call
  set it, the proxy, the files and the object behind the argument pointer.
\<close>

record ioctl_result =
  io_ret :: int
  io_errno :: "int option"
  io_proxy :: V4L2CameraProxy
  io_files :: file_store
  io_arg :: "ioctl_arg option"

definition ioctl_fail ::
  "int \<Rightarrow> V4L2CameraProxy \<Rightarrow> file_store \<Rightarrow> ioctl_arg option \<Rightarrow> ioctl_result" where
  "ioctl_fail e s files arg =
     \<lparr>io_ret = - 1, io_errno = Some e, io_proxy = s, io_files = files, io_arg = arg\<rparr>"

text \<open>The end of \<^verbatim>\<open>ioctl\<close>: a negative \<open>ret\<close> becomes \<^verbatim>\<open>errno\<close> and the value -1.\<close>

definition ioctl_ret ::
  "int \<Rightarrow> V4L2CameraProxy \<Rightarrow> file_store \<Rightarrow> ioctl_arg option \<Rightarrow> ioctl_result" where
  "ioctl_ret ret s files arg =
     (if ret < 0 then ioctl_fail (- ret) s files arg
      else \<lparr>io_ret = ret, io_errno = None, io_proxy = s, io_files = files, io_arg = arg\<rparr>)"

definition ioctl_handled ::
  "file_store \<Rightarrow> ('a \<Rightarrow> ioctl_arg) \<Rightarrow> (int \<times> V4L2CameraProxy \<times> 'a) outcome \<Rightarrow> ioctl_result outcome" where
  "ioctl_handled files wrap r =
     bind_outcome r (\<lambda>(ret, s, a). Returns (ioctl_ret ret s files (Some (wrap a))))"

definition ioctl ::
  "V4L2CameraProxy \<Rightarrow> file_store \<Rightarrow> file_id \<Rightarrow> u64 \<Rightarrow> ioctl_arg option \<Rightarrow> backend
     \<Rightarrow> ioctl_result outcome" where
  "ioctl s files file request arg b =
     (if arg = None \<and> IOC_DIR request AND IOC_WRITE \<noteq> 0
      then Returns (ioctl_fail EFAULT s files arg)
      else if request \<notin> set supportedIoctls then Returns (ioctl_fail ENOTTY s files arg)
      else if arg = None \<and> IOC_DIR request AND IOC_READ \<noteq> 0
      then Returns (ioctl_fail EFAULT s files arg)
      else if request = VIDIOC_QUERYCAP then
        (case arg of Some (Arg_capability a) \<Rightarrow>
           ioctl_handled files Arg_capability (vidioc_querycap s a) | _ \<Rightarrow> Undefined)
      else if request = VIDIOC_ENUM_FRAMESIZES then
        (case arg of Some (Arg_frmsizeenum a) \<Rightarrow>
           ioctl_handled files Arg_frmsizeenum (vidioc_enum_framesizes s file a) | _ \<Rightarrow> Undefined)
      else if request = VIDIOC_ENUM_FMT then
        (case arg of Some (Arg_fmtdesc a) \<Rightarrow>
           ioctl_handled files Arg_fmtdesc (vidioc_enum_fmt s file a) | _ \<Rightarrow> Undefined)
      else if request = VIDIOC_G_FMT then
        (case arg of Some (Arg_format a) \<Rightarrow>
           ioctl_handled files Arg_format (vidioc_g_fmt s file a) | _ \<Rightarrow> Undefined)
      else if request = VIDIOC_S_FMT then
        (case arg of Some (Arg_format a) \<Rightarrow>
           ioctl_handled files Arg_format (vidioc_s_fmt s files file a b) | _ \<Rightarrow> Undefined)
      else if request = VIDIOC_TRY_FMT then
        (case arg of Some (Arg_format a) \<Rightarrow>
           ioctl_handled files Arg_format (vidioc_try_fmt s file a) | _ \<Rightarrow> Undefined)
      else if request = VIDIOC_G_PRIORITY then
        (case arg of Some (Arg_priority a) \<Rightarrow>
           ioctl_handled files Arg_priority (vidioc_g_priority s files file a) | _ \<Rightarrow> Undefined)
      else if request = VIDIOC_S_PRIORITY then
        (case arg of Some (Arg_priority a) \<Rightarrow>
           (case vidioc_s_priority s files file a of
              (ret, files1) \<Rightarrow> Returns (ioctl_ret ret s files1 arg)) | _ \<Rightarrow> Undefined)
      else if request = VIDIOC_ENUMINPUT then
        (case arg of Some (Arg_input a) \<Rightarrow>
           ioctl_handled files Arg_input (vidioc_enuminput s file a) | _ \<Rightarrow> Undefined)
      else if request = VIDIOC_G_INPUT then
        (case arg of Some (Arg_int a) \<Rightarrow>
           ioctl_handled files Arg_int (vidioc_g_input s file a) | _ \<Rightarrow> Undefined)
      else if request = VIDIOC_S_INPUT then
        (case arg of Some (Arg_int a) \<Rightarrow>
           ioctl_handled files Arg_int (vidioc_s_input s file a) | _ \<Rightarrow> Undefined)
      else if request = VIDIOC_REQBUFS then
        (case arg of Some (Arg_requestbuffers a) \<Rightarrow>
           ioctl_handled files Arg_requestbuffers (vidioc_reqbufs s files file a b)
         | _ \<Rightarrow> Undefined)
      else if request = VIDIOC_QUERYBUF then
        (case arg of Some (Arg_buffer a) \<Rightarrow>
           ioctl_handled files Arg_buffer (vidioc_querybuf s file a b) | _ \<Rightarrow> Undefined)
      else if request = VIDIOC_QBUF then
        (case arg of Some (Arg_buffer a) \<Rightarrow>
           ioctl_handled files Arg_buffer (vidioc_qbuf s file a b) | _ \<Rightarrow> Undefined)
      else if request = VIDIOC_DQBUF then
        (case arg of Some (Arg_buffer a) \<Rightarrow>
           ioctl_handled files Arg_buffer (vidioc_dqbuf s files file a b) | _ \<Rightarrow> Undefined)
      else if request = VIDIOC_STREAMON then
        (case arg of Some (Arg_int a) \<Rightarrow>
           ioctl_handled files Arg_int (vidioc_streamon s files file a b) | _ \<Rightarrow> Undefined)
      else if request = VIDIOC_STREAMOFF then
        (case arg of Some (Arg_int a) \<Rightarrow>
           ioctl_handled files Arg_int (vidioc_streamoff s files file a b) | _ \<Rightarrow> Undefined)
      else Returns (ioctl_ret (- ENOTTY) s files arg))"

subsection \<open>Sequences of calls\<close>

text \<open>
  What a call left behind: the return code of a call that returned, and the proxy after
  it (the proxy as it was, for a call that did not return).
\<close>

definition ret_of :: "(int \<times> V4L2CameraProxy \<times> 'a) outcome \<Rightarrow> int option" where
  "ret_of r = (case r of Returns (ret, s, a) \<Rightarrow> Some ret | _ \<Rightarrow> None)"

definition after :: "V4L2CameraProxy \<Rightarrow> (int \<times> V4L2CameraProxy \<times> 'a) outcome \<Rightarrow> V4L2CameraProxy" where
  "after s r = (case r of Returns (ret, s1, a) \<Rightarrow> s1 | _ \<Rightarrow> s)"

text \<open>
  A client that queues and dequeues through one file. Each call comes with the answers
  the backend gives during it; for a dequeue these hold the completions that have
  arrived since the last drain, in the order of arrival. \<open>run_ops\<close> returns the indices
  of the buffers queued with success, in the order of the calls, the indices of the
  buffers that the successful dequeues returned, and the final proxy.
\<close>

datatype buffer_op = Qbuf v4l2_buffer backend | Dqbuf v4l2_buffer backend

fun run_ops ::
  "V4L2CameraProxy \<Rightarrow> file_store \<Rightarrow> file_id \<Rightarrow> buffer_op list
     \<Rightarrow> (u32 list \<times> u32 list \<times> V4L2CameraProxy) outcome" where
  "run_ops s files file [] = Returns ([], [], s)"
| "run_ops s files file (Qbuf arg b # ops) =
     bind_outcome (vidioc_qbuf s file arg b) (\<lambda>(ret, s1, arg1).
       bind_outcome (run_ops s1 files file ops) (\<lambda>(qs, ds, t).
         Returns ((if 0 \<le> ret then buf_index arg # qs else qs), ds, t)))"
| "run_ops s files file (Dqbuf arg b # ops) =
     bind_outcome (vidioc_dqbuf s files file arg b) (\<lambda>(ret, s1, arg1).
       bind_outcome (run_ops s1 files file ops) (\<lambda>(qs, ds, t).
         Returns (qs, (if 0 \<le> ret then buf_index arg1 # ds else ds), t)))"

definition orders_of ::
  "(u32 list \<times> u32 list \<times> V4L2CameraProxy) outcome \<Rightarrow> (u32 list \<times> u32 list) option" where
  "orders_of r = (case r of Returns (qs, ds, t) \<Rightarrow> Some (qs, ds) | _ \<Rightarrow> None)"

text \<open>The values the dequeue cursor takes: \<open>c\<close>, \<open>c + 1\<close>, ... modulo \<open>n\<close>.\<close>

fun cursor_seq :: "u32 \<Rightarrow> u32 \<Rightarrow> nat \<Rightarrow> u32 list" where
  "cursor_seq c n 0 = []"
| "cursor_seq c n (Suc k) = c # cursor_seq ((c + 1) mod n) n k"

text \<open>
  The buffer table as \<open>vidioc_reqbufs\<close> builds it: as many slots as the buffer
  count says, slot \<open>i\<close> carrying the index \<open>i\<close>, the cursor on one of them.
\<close>

definition buffers_wf :: "V4L2CameraProxy \<Rightarrow> bool" where
  "buffers_wf s =
     (length (buffers_m s) = unat (bufferCount_m s) \<and>
      list_all (\<lambda>i. buf_index (buffers_m s ! i) = of_nat i) [0 ..< length (buffers_m s)] \<and>
      currentBuf_m s < bufferCount_m s)"


section \<open>Example devices\<close>

text \<open>
  A backend that advertises YUYV at 640x480 and 320x240 and NV12 at 1280x720, and
  answers every call with success.
\<close>

definition example_formats :: StreamFormats where
  "example_formats =
     [(formats_YUYV, [Size_of 640 480, Size_of 320 240]), (formats_NV12, [Size_of 1280 720])]"

definition example_config :: StreamConfiguration where
  "example_config =
     \<lparr>cfg_pixelFormat = formats_YUYV, cfg_size = Size_of 640 480, cfg_bufferCount = 4,
      cfg_formats = example_formats\<rparr>"

text \<open>A request for an encoding and a size that the backend does not advertise.\<close>

definition example_request :: v4l2_format where
  "example_request =
     \<lparr>fmt_type = V4L2_BUF_TYPE_VIDEO_CAPTURE,
      fmt_pix = \<lparr>pix_width = 1, pix_height = 1, pixelformat = 0, pix_field = 0,
        bytesperline = 7, sizeimage = 9, colorspace = 3, priv = 0, pix_flags = 0,
        ycbcr_enc = 1, quantization = 1, xfer_func = 1\<rparr>\<rparr>"

text \<open>
  A backend that advertises YUYV and, after it, the encoding that DRM calls RGB888 and
  V4L2 calls BGR24, and a request for that encoding at a size that is not advertised.
\<close>

definition rgb_config :: StreamConfiguration where
  "rgb_config =
     \<lparr>cfg_pixelFormat = formats_YUYV, cfg_size = Size_of 640 480, cfg_bufferCount = 4,
      cfg_formats =
        [(formats_YUYV, [Size_of 640 480]),
         (formats_RGB888, [Size_of 320 240, Size_of 640 480])]\<rparr>"

definition rgb_request :: v4l2_format where
  "rgb_request =
     example_request\<lparr>fmt_pix := (fmt_pix example_request)\<lparr>pixelformat := V4L2_PIX_FMT_BGR24\<rparr>\<rparr>"

text \<open>A backend that advertises no encoding, and one that advertises YUYV at no size.\<close>

definition no_formats :: StreamConfiguration where
  "no_formats = example_config\<lparr>cfg_formats := []\<rparr>"

definition no_sizes :: StreamConfiguration where
  "no_sizes = example_config\<lparr>cfg_formats := [(formats_YUYV, [])]\<rparr>"

definition example_file :: V4L2CameraFile where
  "example_file =
     \<lparr>file_priority = V4L2_PRIORITY_UNSET, file_nonBlocking = True, file_efd = 3\<rparr>"

definition example_files :: file_store where
  "example_files = (\<lambda>f. example_file)"

definition example_backend :: backend where
  "example_backend =
     \<lparr>open_ret = 0, open_config = example_config, configure_ret = 0,
      configure_config = example_config, allocBuffers_ret = 0, qbuf_ret = 0,
      streamOn_ret = 0, streamOff_ret = 0, completed = [], bufferAvailable = False,
      bufferFd_valid = True, mmap_ret = Some 0x7f0000000000\<rparr>"

text \<open>The proxy of camera 0 after file 1 has opened it.\<close>

definition opened :: V4L2CameraProxy where
  "opened = snd (open (V4L2CameraProxy_new 0 ''camera'' v4l2_format_zero 0) 1 example_backend)"

definition capture_request :: "u32 \<Rightarrow> v4l2_requestbuffers" where
  "capture_request n =
     \<lparr>rb_count = n, rb_type = V4L2_BUF_TYPE_VIDEO_CAPTURE, rb_memory = V4L2_MEMORY_MMAP,
      rb_capabilities = 0\<rparr>"

definition capture_buffer :: "u32 \<Rightarrow> v4l2_buffer" where
  "capture_buffer i =
     v4l2_buffer_zero\<lparr>buf_index := i, buf_type := V4L2_BUF_TYPE_VIDEO_CAPTURE,
       buf_memory := V4L2_MEMORY_MMAP\<rparr>"

text \<open>
  File 1 requests two buffers and the backend grants two; then it starts the stream.
\<close>

definition grants :: "u32 \<Rightarrow> backend" where
  "grants n = example_backend\<lparr>configure_config := example_config\<lparr>cfg_bufferCount := n\<rparr>\<rparr>"

definition allocated2 :: V4L2CameraProxy where
  "allocated2 = after opened (vidioc_reqbufs opened example_files 1 (capture_request 2) (grants 2))"

definition streaming2 :: V4L2CameraProxy where
  "streaming2 =
     after allocated2
       (vidioc_streamon allocated2 example_files 1 V4L2_BUF_TYPE_VIDEO_CAPTURE example_backend)"

text \<open>A frame that completed with success, with its timestamp in nanoseconds.\<close>

definition frame_done :: "u32 \<Rightarrow> u64 \<Rightarrow> Buffer" where
  "frame_done i t =
     \<lparr>buffer_index = i,
      buffer_data = \<lparr>fmd_status = FrameSuccess, fmd_sequence = 0, fmd_timestamp = t,
        fmd_planes = [614400]\<rparr>\<rparr>"

text \<open>The format of the example backend, and slot \<open>i\<close> of its buffer table with flags \<open>fl\<close>.\<close>

definition example_pix :: v4l2_pix_format where
  "example_pix =
     \<lparr>pix_width = 640, pix_height = 480, pixelformat = 0x56595559, pix_field = 1,
      bytesperline = 1280, sizeimage = 614400, colorspace = 8, priv = 0xfeedcafe,
      pix_flags = 0, ycbcr_enc = 0, quantization = 0, xfer_func = 0\<rparr>"

definition slot :: "u32 \<Rightarrow> u32 \<Rightarrow> v4l2_buffer" where
  "slot i fl =
     \<lparr>buf_index = i, buf_type = 1, buf_bytesused = 0, buf_flags = fl, buf_field = 0,
      buf_tv_sec = 0, buf_tv_usec = 0, buf_sequence = 0, buf_memory = 1,
      buf_offset = i * 614400, buf_length = 614400\<rparr>"

text \<open>
  File 1 queues buffer 1 only; the backend then completes it, at 1500 ns.
\<close>

definition queued1 :: V4L2CameraProxy where
  "queued1 = after streaming2 (vidioc_qbuf streaming2 1 (capture_buffer 1) example_backend)"

definition completes :: "Buffer list \<Rightarrow> backend" where
  "completes bs = example_backend\<lparr>completed := bs, bufferAvailable := True\<rparr>"

definition queue1_dequeue :: "buffer_op list" where
  "queue1_dequeue =
     [Qbuf (capture_buffer 1) example_backend,
      Dqbuf (capture_buffer 0) (completes [frame_done 1 1500])]"

text \<open>The backend cannot allocate the buffers that file 1 requests.\<close>

definition alloc_fails :: backend where
  "alloc_fails = example_backend\<lparr>allocBuffers_ret := - ENOMEM\<rparr>"

definition failed_alloc :: V4L2CameraProxy where
  "failed_alloc =
     after opened (vidioc_reqbufs opened example_files 1 (capture_request 4) alloc_fails)"

text \<open>File 2 opens the device while file 1 owns it with its two buffers.\<close>

definition two_open :: V4L2CameraProxy where
  "two_open = snd (open allocated2 2 example_backend)"

text \<open>
  File 2 opens the device while file 1 is streaming, and file 1 closes it: the stream
  goes on and no file owns the device.
\<close>

definition orphaned :: V4L2CameraProxy where
  "orphaned = close (snd (open streaming2 2 example_backend)) 1"

definition stopped_by_2 :: V4L2CameraProxy where
  "stopped_by_2 =
     after orphaned
       (vidioc_streamoff orphaned example_files 2 V4L2_BUF_TYPE_VIDEO_CAPTURE example_backend)"


text \<open>File 1, the owner, stops the stream it started, with buffer 1 queued.\<close>

definition stopped_by_1 :: V4L2CameraProxy where
  "stopped_by_1 =
     after queued1
       (vidioc_streamoff queued1 example_files 1 V4L2_BUF_TYPE_VIDEO_CAPTURE example_backend)"

text \<open>
  The first advertised encoding, converted to its V4L2 code and back, is itself or no
  advertised encoding.
\<close>

definition first_encoding_roundtrips :: "StreamConfiguration \<Rightarrow> bool" where
  "first_encoding_roundtrips cfg =
     (case pixelformats (cfg_formats cfg) of
        [] \<Rightarrow> True
      | f # fs \<Rightarrow> v4l2ToDrm (drmToV4L2 f) = f \<or> v4l2ToDrm (drmToV4L2 f) \<notin> set (f # fs))"

text \<open>
  A backend whose first encoding has the fourcc BGR3, which is no encoding of the
  format table but the V4L2 code of the table's RGB888, advertised second.
\<close>

definition odd_config :: StreamConfiguration where
  "odd_config =
     \<lparr>cfg_pixelFormat = formats_RGB888, cfg_size = Size_of 320 240, cfg_bufferCount = 4,
      cfg_formats =
        [(PixelFormat_of (fourcc_code CHR ''B'' CHR ''G'' CHR ''R'' CHR ''3''), [Size_of 640 480]),
         (formats_RGB888, [Size_of 320 240])]\<rparr>"

definition odd_opened :: V4L2CameraProxy where
  "odd_opened =
     snd (open (V4L2CameraProxy_new 0 ''camera'' v4l2_format_zero 0) 1
       (example_backend\<lparr>open_config := odd_config\<rparr>))"

definition negotiated_once :: v4l2_format where
  "negotiated_once =
     \<lparr>fmt_type = V4L2_BUF_TYPE_VIDEO_CAPTURE,
      fmt_pix = \<lparr>pix_width = 640, pix_height = 480, pixelformat = V4L2_PIX_FMT_BGR24,
        pix_field = 1, bytesperline = 1920, sizeimage = 921600, colorspace = 8,
        priv = 0xfeedcafe, pix_flags = 0, ycbcr_enc = 0, quantization = 0, xfer_func = 0\<rparr>\<rparr>"

definition negotiated_twice :: v4l2_format where
  "negotiated_twice =
     \<lparr>fmt_type = V4L2_BUF_TYPE_VIDEO_CAPTURE,
      fmt_pix = \<lparr>pix_width = 320, pix_height = 240, pixelformat = V4L2_PIX_FMT_BGR24,
        pix_field = 1, bytesperline = 960, sizeimage = 230400, colorspace = 8,
        priv = 0xfeedcafe, pix_flags = 0, ycbcr_enc = 0, quantization = 0, xfer_func = 0\<rparr>\<rparr>"


text \<open>The buffer table has as many slots as the buffer count says.\<close>

definition table_inv :: "V4L2CameraProxy \<Rightarrow> bool" where
  "table_inv s = (length (buffers_m s) = unat (bufferCount_m s))"

section \<open>Properties\<close>

subsection \<open>Evaluating the constants\<close>

lemmas v4l2_pix_fmt_defs =
  V4L2_PIX_FMT_BGR24_def V4L2_PIX_FMT_RGB24_def V4L2_PIX_FMT_ARGB32_def V4L2_PIX_FMT_UYVY_def
  V4L2_PIX_FMT_VYUY_def V4L2_PIX_FMT_YUYV_def V4L2_PIX_FMT_YVYU_def V4L2_PIX_FMT_NV12_def
  V4L2_PIX_FMT_NV21_def V4L2_PIX_FMT_NV16_def V4L2_PIX_FMT_NV61_def V4L2_PIX_FMT_NV24_def
  V4L2_PIX_FMT_NV42_def V4L2_PIX_FMT_YUV420_def V4L2_PIX_FMT_YUV422P_def V4L2_PIX_FMT_MJPEG_def

lemmas formats_defs =
  formats_RGB888_def formats_BGR888_def formats_BGRA8888_def formats_UYVY_def formats_VYUY_def
  formats_YUYV_def formats_YVYU_def formats_NV12_def formats_NV21_def formats_NV16_def
  formats_NV61_def formats_NV24_def formats_NV42_def formats_YUV420_def formats_YUV422_def
  formats_MJPEG_def

lemmas flag_defs =
  V4L2_BUF_FLAG_MAPPED_def V4L2_BUF_FLAG_QUEUED_def V4L2_BUF_FLAG_DONE_def
  V4L2_BUF_FLAG_ERROR_def V4L2_BUF_FLAG_TIMESTAMP_MONOTONIC_def

lemmas errno_defs = EAGAIN_def ENOMEM_def EFAULT_def EBUSY_def EINVAL_def ENOTTY_def

lemmas layout_defs =
  V4L2_FIELD_NONE_def V4L2_COLORSPACE_SRGB_def V4L2_PIX_FMT_PRIV_MAGIC_def
  V4L2_YCBCR_ENC_DEFAULT_def V4L2_QUANTIZATION_DEFAULT_def V4L2_XFER_FUNC_DEFAULT_def

lemmas priority_defs =
  V4L2_PRIORITY_UNSET_def V4L2_PRIORITY_BACKGROUND_def V4L2_PRIORITY_INTERACTIVE_def
  V4L2_PRIORITY_RECORD_def

text \<open>The format table with its fourccs as numbers.\<close>

lemma pixelFormatInfo_values:
  "pixelFormatInfo =
   [ info (PixelFormat_of 0x34324752) 0x33524742 1 [plane 24 1 1, plane 0 0 0, plane 0 0 0],
     info (PixelFormat_of 0x34324742) 0x33424752 1 [plane 24 1 1, plane 0 0 0, plane 0 0 0],
     info (PixelFormat_of 0x34324142) 0x34324142 1 [plane 32 1 1, plane 0 0 0, plane 0 0 0],
     info (PixelFormat_of 0x59565955) 0x59565955 1 [plane 16 1 1, plane 0 0 0, plane 0 0 0],
     info (PixelFormat_of 0x59555956) 0x59555956 1 [plane 16 1 1, plane 0 0 0, plane 0 0 0],
     info (PixelFormat_of 0x56595559) 0x56595559 1 [plane 16 1 1, plane 0 0 0, plane 0 0 0],
     info (PixelFormat_of 0x55595659) 0x55595659 1 [plane 16 1 1, plane 0 0 0, plane 0 0 0],
     info (PixelFormat_of 0x3231564E) 0x3231564E 2 [plane 8 1 1, plane 16 2 2, plane 0 0 0],
     info (PixelFormat_of 0x3132564E) 0x3132564E 2 [plane 8 1 1, plane 16 2 2, plane 0 0 0],
     info (PixelFormat_of 0x3631564E) 0x3631564E 2 [plane 8 1 1, plane 16 2 1, plane 0 0 0],
     info (PixelFormat_of 0x3136564E) 0x3136564E 2 [plane 8 1 1, plane 16 2 1, plane 0 0 0],
     info (PixelFormat_of 0x3432564E) 0x3432564E 2 [plane 8 1 1, plane 16 1 1, plane 0 0 0],
     info (PixelFormat_of 0x3234564E) 0x3234564E 2 [plane 8 1 1, plane 16 1 1, plane 0 0 0],
     info (PixelFormat_of 0x32315559) 0x32315559 3 [plane 8 1 1, plane 8 2 2, plane 8 2 2],
     info (PixelFormat_of 0x36315559) 0x50323234 3 [plane 8 1 1, plane 8 2 1, plane 8 2 1],
     info (PixelFormat_of 0x47504A4D) 0x47504A4D 1 [plane 16 1 1, plane 0 0 0, plane 0 0 0] ]"
  by (simp add: pixelFormatInfo_def v4l2_pix_fmt_defs formats_defs fourcc_code_def)

lemmas table_eval =
  v4l2ToDrm_def drmToV4L2_def bplMultiplier_def imageSize_def plane_multiplier_def
  pixelFormatInfo_values info_def plane_def PixelFormat_of_def PixelFormat_default_def

lemma example_formats_values:
  "example_formats =
     [(PixelFormat_of 0x56595559, [Size_of 640 480, Size_of 320 240]),
      (PixelFormat_of 0x3231564E, [Size_of 1280 720])]"
  by (simp add: example_formats_def formats_defs fourcc_code_def)

subsection \<open>The example devices, evaluated\<close>

lemmas const_defs =
  errno_defs flag_defs layout_defs priority_defs V4L2_BUF_TYPE_VIDEO_CAPTURE_def
  V4L2_MEMORY_MMAP_def V4L2_BUF_CAP_SUPPORTS_MMAP_def

lemma example_config_values:
  "example_config =
     \<lparr>cfg_pixelFormat = PixelFormat_of 0x56595559, cfg_size = Size_of 640 480,
      cfg_bufferCount = 4, cfg_formats = example_formats\<rparr>"
  by (simp add: example_config_def formats_defs fourcc_code_def)

lemma drmToV4L2_YUYV: "drmToV4L2 (PixelFormat_of 0x56595559) = 0x56595559"
  by (simp add: table_eval)

lemma bplMultiplier_YUYV: "bplMultiplier 0x56595559 = 2"
  by (simp add: table_eval)

lemma imageSize_YUYV: "imageSize 0x56595559 640 480 = 614400"
  by (simp add: table_eval)

lemma example_config_fields:
  "cfg_pixelFormat example_config = PixelFormat_of 0x56595559"
  "cfg_size example_config = Size_of 640 480"
  "cfg_bufferCount example_config = 4"
  "cfg_formats example_config = example_formats"
  by (simp_all add: example_config_values)

lemma calculateSizeImage_example:
  "cfg_pixelFormat c = PixelFormat_of 0x56595559 \<Longrightarrow> cfg_size c = Size_of 640 480 \<Longrightarrow>
   calculateSizeImage c = 614400"
  by (simp add: calculateSizeImage_def Size_of_def drmToV4L2_YUYV imageSize_YUYV)

lemma setFmtFromConfig_example:
  "cfg_pixelFormat c = PixelFormat_of 0x56595559 \<Longrightarrow> cfg_size c = Size_of 640 480 \<Longrightarrow>
   setFmtFromConfig s c =
     s\<lparr>curV4L2Format_m := (curV4L2Format_m s)\<lparr>fmt_pix := (fmt_pix (curV4L2Format_m s))
        \<lparr>pix_width := 640, pix_height := 480, pixelformat := 0x56595559, pix_field := 1,
         bytesperline := 1280, sizeimage := 614400, colorspace := 8, priv := 0xfeedcafe,
         ycbcr_enc := 0, quantization := 0, xfer_func := 0\<rparr>\<rparr>\<rparr>"
  by (simp add: setFmtFromConfig_def Size_of_def drmToV4L2_YUYV
      imageSize_YUYV bplMultiplier_YUYV layout_defs Let_def)

lemma priority_less_irrefl [simp]: "\<not> priority_less a a"
  by (simp add: priority_less_def)



lemma maxPriority_example: "maxPriority example_files s = 0"
  by (cases "files_m s")
    (simp_all add: maxPriority_def example_files_def example_file_def priority_defs)

lemma file_priority_example: "file_priority (example_files f) = 0"
  by (simp add: example_files_def example_file_def priority_defs)

lemma opened_eq:
  "opened =
     \<lparr>refcount_m = 1, index_m = 0,
      curV4L2Format_m = \<lparr>fmt_type = 0, fmt_pix = example_pix\<rparr>,
      streamConfig_m = example_config, bufferCount_m = 0, currentBuf_m = 0,
      sizeimage_m = 614400, capabilities_m = querycap 0 ''camera'', buffers_m = [],
      mmaps_m = [], files_m = [1], vcam_m = \<lparr>isRunning_m = False\<rparr>, owner_m = None\<rparr>"
  unfolding opened_def open_def V4L2CameraProxy_new_def
  by (simp add: example_backend_def Let_def setFmtFromConfig_example
      calculateSizeImage_example example_config_fields set_insert_def v4l2_format_zero_def
      example_pix_def)

lemma new_buffer_opened:
  "sizeimage (fmt_pix (curV4L2Format_m s)) = 614400 \<Longrightarrow> new_buffer s i = slot (of_nat i) 0x2000"
  by (simp add: new_buffer_def v4l2_buffer_zero_def slot_def const_defs)

lemma allocated2_eq:
  "allocated2 =
     opened\<lparr>streamConfig_m := example_config\<lparr>cfg_bufferCount := 2\<rparr>, bufferCount_m := 2,
       buffers_m := [slot 0 0x2000, slot 1 0x2000], owner_m := Some 1\<rparr>"
  unfolding allocated2_def vidioc_reqbufs_def
  by (simp add: opened_eq capture_request_def grants_def example_backend_def
      validateBufferType_def validateMemoryType_def maxPriority_example file_priority_example
      hasOwnership_def Let_def after_def setFmtFromConfig_example calculateSizeImage_example
      example_config_fields new_buffer_opened acquire_def example_pix_def upt_rec)

lemma streaming2_eq: "streaming2 = allocated2\<lparr>vcam_m := \<lparr>isRunning_m = True\<rparr>\<rparr>"
  unfolding streaming2_def vidioc_streamon_def
  by (simp add: allocated2_eq opened_eq example_backend_def validateBufferType_def
      maxPriority_example file_priority_example hasOwnership_def after_def vcam_streamOn_def)

subsection \<open>Format negotiation\<close>

lemma first_or_undefined_hd: "xs \<noteq> [] \<Longrightarrow> first_or_undefined xs = Returns (hd xs)"
  by (cases xs) (simp_all add: first_or_undefined_def)

lemma first_or_undefined_Nil: "first_or_undefined [] = Undefined"
  by (simp add: first_or_undefined_def)

text \<open>
  C6, as the code has it. The negotiated encoding is the requested one if the backend
  advertises it and the first advertised encoding otherwise; the negotiated size is the
  requested one if it is advertised for that encoding and the first size advertised for
  it otherwise. \<open>tryFormat\<close> returns exactly when the list it takes an element from has
  one: when the backend advertises no encoding, or no size for the negotiated encoding,
  the call reads element 0 of an empty vector. In what it returns, bytesperline and
  sizeimage are computed from the format table for the negotiated encoding and size, and
  the colour-space fields are four fixed values, which no table holds. None of these
  fields is read from the request: changing them in the request changes nothing in the
  result.
\<close>

theorem tryFormat_negotiation:
  "(let fs = cfg_formats cfg;
        req = v4l2ToDrm (pixelformat (fmt_pix arg));
        fmt = (if req \<in> set (pixelformats fs) then req else hd (pixelformats fs));
        rsz = Size_of (pix_width (fmt_pix arg)) (pix_height (fmt_pix arg));
        sz = (if rsz \<in> set (sizes fs fmt) then rsz else hd (sizes fs fmt))
    in (pixelformats fs = [] \<or> sizes fs fmt = [] \<longrightarrow> tryFormat cfg arg = Undefined) \<and>
       (pixelformats fs \<noteq> [] \<and> sizes fs fmt \<noteq> [] \<longrightarrow>
          (\<exists>r. tryFormat cfg arg = Returns r \<and>
             pixelformat (fmt_pix r) = drmToV4L2 fmt \<and>
             pix_width (fmt_pix r) = width sz \<and> pix_height (fmt_pix r) = height sz \<and>
             bytesperline (fmt_pix r) = bplMultiplier (drmToV4L2 fmt) * width sz \<and>
             sizeimage (fmt_pix r) = imageSize (drmToV4L2 fmt) (width sz) (height sz) \<and>
             pix_field (fmt_pix r) = V4L2_FIELD_NONE \<and>
             colorspace (fmt_pix r) = V4L2_COLORSPACE_SRGB \<and>
             ycbcr_enc (fmt_pix r) = V4L2_YCBCR_ENC_DEFAULT \<and>
             quantization (fmt_pix r) = V4L2_QUANTIZATION_DEFAULT \<and>
             xfer_func (fmt_pix r) = V4L2_XFER_FUNC_DEFAULT))) \<and>
   (\<forall>b s c y q x. tryFormat cfg (arg\<lparr>fmt_pix := (fmt_pix arg)\<lparr>bytesperline := b,
        sizeimage := s, colorspace := c, ycbcr_enc := y, quantization := q,
        xfer_func := x\<rparr>\<rparr>) = tryFormat cfg arg)"
proof -
  let ?F = "pixelformats (cfg_formats cfg)"
  let ?req = "v4l2ToDrm (pixelformat (fmt_pix arg))"
  let ?fmt = "if ?req \<in> set ?F then ?req else hd ?F"
  let ?S = "sizes (cfg_formats cfg) ?fmt"
  have indep: "\<forall>b s c y q x. tryFormat cfg (arg\<lparr>fmt_pix := (fmt_pix arg)\<lparr>bytesperline := b,
          sizeimage := s, colorspace := c, ycbcr_enc := y, quantization := q,
          xfer_func := x\<rparr>\<rparr>) = tryFormat cfg arg"
    by (simp add: tryFormat_def Let_def)
  have none: "tryFormat cfg arg = Undefined" if "?F = []"
    using that by (simp add: tryFormat_def Let_def first_or_undefined_Nil)
  have nosize: "tryFormat cfg arg = Undefined" if "?F \<noteq> []" "?S = []"
  proof (cases "?req \<in> set ?F")
    case True
    with that show ?thesis
      by (simp add: tryFormat_def Let_def first_or_undefined_Nil)
  next
    case False
    with that show ?thesis
      by (simp add: tryFormat_def Let_def first_or_undefined_hd first_or_undefined_Nil)
  qed
  have some: "\<exists>r. tryFormat cfg arg = Returns r \<and>
      pixelformat (fmt_pix r) = drmToV4L2 ?fmt \<and>
      pix_width (fmt_pix r) =
        width (if Size_of (pix_width (fmt_pix arg)) (pix_height (fmt_pix arg)) \<in> set ?S
               then Size_of (pix_width (fmt_pix arg)) (pix_height (fmt_pix arg)) else hd ?S) \<and>
      pix_height (fmt_pix r) =
        height (if Size_of (pix_width (fmt_pix arg)) (pix_height (fmt_pix arg)) \<in> set ?S
               then Size_of (pix_width (fmt_pix arg)) (pix_height (fmt_pix arg)) else hd ?S) \<and>
      bytesperline (fmt_pix r) = bplMultiplier (drmToV4L2 ?fmt) * pix_width (fmt_pix r) \<and>
      sizeimage (fmt_pix r) =
        imageSize (drmToV4L2 ?fmt) (pix_width (fmt_pix r)) (pix_height (fmt_pix r)) \<and>
      pix_field (fmt_pix r) = V4L2_FIELD_NONE \<and>
      colorspace (fmt_pix r) = V4L2_COLORSPACE_SRGB \<and>
      ycbcr_enc (fmt_pix r) = V4L2_YCBCR_ENC_DEFAULT \<and>
      quantization (fmt_pix r) = V4L2_QUANTIZATION_DEFAULT \<and>
      xfer_func (fmt_pix r) = V4L2_XFER_FUNC_DEFAULT"
    if "?F \<noteq> []" "?S \<noteq> []"
    using that by (auto simp add: tryFormat_def Let_def first_or_undefined_hd)
  from none nosize have undef: "?F = [] \<or> ?S = [] \<longrightarrow> tryFormat cfg arg = Undefined"
    by blast
  from some have def: "?F \<noteq> [] \<and> ?S \<noteq> [] \<longrightarrow> (\<exists>r. tryFormat cfg arg = Returns r \<and>
      pixelformat (fmt_pix r) = drmToV4L2 ?fmt \<and>
      pix_width (fmt_pix r) =
        width (if Size_of (pix_width (fmt_pix arg)) (pix_height (fmt_pix arg)) \<in> set ?S
               then Size_of (pix_width (fmt_pix arg)) (pix_height (fmt_pix arg)) else hd ?S) \<and>
      pix_height (fmt_pix r) =
        height (if Size_of (pix_width (fmt_pix arg)) (pix_height (fmt_pix arg)) \<in> set ?S
               then Size_of (pix_width (fmt_pix arg)) (pix_height (fmt_pix arg)) else hd ?S) \<and>
      bytesperline (fmt_pix r) = bplMultiplier (drmToV4L2 ?fmt) * pix_width (fmt_pix r) \<and>
      sizeimage (fmt_pix r) =
        imageSize (drmToV4L2 ?fmt) (pix_width (fmt_pix r)) (pix_height (fmt_pix r)) \<and>
      pix_field (fmt_pix r) = V4L2_FIELD_NONE \<and>
      colorspace (fmt_pix r) = V4L2_COLORSPACE_SRGB \<and>
      ycbcr_enc (fmt_pix r) = V4L2_YCBCR_ENC_DEFAULT \<and>
      quantization (fmt_pix r) = V4L2_QUANTIZATION_DEFAULT \<and>
      xfer_func (fmt_pix r) = V4L2_XFER_FUNC_DEFAULT)"
    by blast
  from undef def indep show ?thesis
    unfolding Let_def by (simp only: simp_thms) metis
qed

lemma PixelFormat_of_inject: "PixelFormat_of a = PixelFormat_of b \<longleftrightarrow> a = b"
  "PixelFormat_default = PixelFormat_of a \<longleftrightarrow> a = 0"
  by (auto simp add: PixelFormat_of_def PixelFormat_default_def)

lemma rgb_config_formats:
  "pixelformats (cfg_formats rgb_config) =
     [PixelFormat_of 0x56595559, PixelFormat_of 0x34324752]"
  "sizes (cfg_formats rgb_config) (PixelFormat_of 0x56595559) = [Size_of 640 480]"
  "sizes (cfg_formats rgb_config) (PixelFormat_of 0x34324752) =
     [Size_of 320 240, Size_of 640 480]"
  by (simp_all add: rgb_config_def pixelformats_def sizes_def formats_YUYV_def
      formats_RGB888_def PixelFormat_of_def fourcc_code_def)

lemma rgb_conversions:
  "v4l2ToDrm 0x33524742 = PixelFormat_of 0x34324752"
  "drmToV4L2 (PixelFormat_of 0x34324752) = 0x33524742"
  "v4l2ToDrm 0 = PixelFormat_default"
  "bplMultiplier 0x33524742 = 3" "imageSize 0x33524742 320 240 = 230400"
  by (simp_all add: table_eval)

theorem tryFormat_negotiation_witness:
  "pixelformats (cfg_formats rgb_config) \<noteq> [] \<and>
   (\<exists>r. tryFormat rgb_config rgb_request = Returns r \<and>
        pixelformat (fmt_pix r) = V4L2_PIX_FMT_BGR24 \<and>
        pix_width (fmt_pix r) = 320 \<and> pix_height (fmt_pix r) = 240 \<and>
        bytesperline (fmt_pix r) = 960 \<and> sizeimage (fmt_pix r) = 230400 \<and>
        colorspace (fmt_pix r) = V4L2_COLORSPACE_SRGB) \<and>
   (\<exists>r. tryFormat rgb_config example_request = Returns r \<and>
        pixelformat (fmt_pix r) = V4L2_PIX_FMT_YUYV \<and>
        pix_width (fmt_pix r) = 640 \<and> pix_height (fmt_pix r) = 480 \<and>
        bytesperline (fmt_pix r) = 1280 \<and> sizeimage (fmt_pix r) = 614400)"
proof -
  have F: "pixelformats (cfg_formats rgb_config) \<noteq> []"
    by (simp add: rgb_config_formats)
  have q1: "pixelformat (fmt_pix rgb_request) = V4L2_PIX_FMT_BGR24"
    "pix_width (fmt_pix rgb_request) = 1" "pix_height (fmt_pix rgb_request) = 1"
    by (simp_all add: rgb_request_def example_request_def V4L2_PIX_FMT_BGR24_def
        fourcc_code_def)
  have q2: "pixelformat (fmt_pix example_request) = 0"
    "pix_width (fmt_pix example_request) = 1" "pix_height (fmt_pix example_request) = 1"
    by (simp_all add: example_request_def)
  have one: "\<exists>r. tryFormat rgb_config rgb_request = Returns r \<and>
        pixelformat (fmt_pix r) = V4L2_PIX_FMT_BGR24 \<and>
        pix_width (fmt_pix r) = 320 \<and> pix_height (fmt_pix r) = 240 \<and>
        bytesperline (fmt_pix r) = 960 \<and> sizeimage (fmt_pix r) = 230400 \<and>
        colorspace (fmt_pix r) = V4L2_COLORSPACE_SRGB"
    using tryFormat_negotiation [of rgb_config rgb_request]
    by (auto simp add: Let_def q1 rgb_config_formats rgb_conversions Size_of_def
        PixelFormat_of_inject V4L2_PIX_FMT_BGR24_def fourcc_code_def layout_defs)
  have two: "\<exists>r. tryFormat rgb_config example_request = Returns r \<and>
        pixelformat (fmt_pix r) = V4L2_PIX_FMT_YUYV \<and>
        pix_width (fmt_pix r) = 640 \<and> pix_height (fmt_pix r) = 480 \<and>
        bytesperline (fmt_pix r) = 1280 \<and> sizeimage (fmt_pix r) = 614400"
    using tryFormat_negotiation [of rgb_config example_request]
    by (auto simp add: Let_def q2 rgb_config_formats rgb_conversions Size_of_def
        drmToV4L2_YUYV bplMultiplier_YUYV imageSize_YUYV V4L2_PIX_FMT_YUYV_def fourcc_code_def
        PixelFormat_of_inject)
  from F one two show ?thesis by blast
qed

text \<open>
  A backend that advertises no encoding, and one that advertises an encoding at no
  size: the negotiation has no first element to substitute.
\<close>

theorem tryFormat_negotiation_counterexample:
  "tryFormat no_formats example_request = Undefined \<and>
   tryFormat no_sizes example_request = Undefined"
  by (simp add: tryFormat_def no_formats_def no_sizes_def example_config_def pixelformats_def
      sizes_def first_or_undefined_def Let_def)

subsection \<open>Dequeueing\<close>

lemma updateBuffers_loop_keeps:
  "updateBuffers_loop cs bufs = Returns bufs' \<Longrightarrow>
   length bufs' = length bufs \<and> (\<forall>i < length bufs. buf_index (bufs' ! i) = buf_index (bufs ! i))"
proof (induction cs arbitrary: bufs)
  case Nil
  then show ?case by simp
next
  case (Cons c cs)
  show ?case
  proof (cases "length bufs \<le> unat (buffer_index c)")
    case True
    with Cons.prems show ?thesis by simp
  next
    case False
    then have lt: "unat (buffer_index c) < length bufs" by simp
    show ?thesis
    proof (cases "fmd_status (buffer_data c)")
      case FrameSuccess
      show ?thesis
      proof (cases "fmd_planes (buffer_data c)")
        case Nil
        with Cons.prems False FrameSuccess show ?thesis by (simp add: Let_def)
      next
        case (Cons p ps)
        with Cons.prems False FrameSuccess Cons.IH [of "bufs[unat (buffer_index c) := (bufs ! unat (buffer_index c))
                        \<lparr>buf_bytesused := p,
                         buf_flags := buf_flags (bufs ! unat (buffer_index c)) OR V4L2_BUF_FLAG_DONE,
                         buf_field := V4L2_FIELD_NONE,
                         buf_tv_sec := fmd_timestamp (buffer_data c) div 1000000000,
                         buf_tv_usec := fmd_timestamp (buffer_data c) mod 1000000,
                         buf_sequence := fmd_sequence (buffer_data c)\<rparr>]"]
        show ?thesis by (auto simp add: Let_def nth_list_update)
      qed
    next
      case FrameError
      with Cons.prems False Cons.IH [of "bufs[unat (buffer_index c) := (bufs ! unat (buffer_index c))
          \<lparr>buf_flags := buf_flags (bufs ! unat (buffer_index c)) OR V4L2_BUF_FLAG_ERROR\<rparr>]"]
      show ?thesis by (auto simp add: Let_def nth_list_update)
    next
      case FrameCancelled
      with Cons.prems False Cons.IH [of bufs] show ?thesis by (simp add: Let_def)
    qed
  qed
qed

lemma updateBuffers_keeps:
  assumes "updateBuffers s b = Returns s1"
  shows "length (buffers_m s1) = length (buffers_m s)"
    and "\<And>i. i < length (buffers_m s) \<Longrightarrow> buf_index (buffers_m s1 ! i) = buf_index (buffers_m s ! i)"
    and "currentBuf_m s1 = currentBuf_m s"
    and "sizeimage_m s1 = sizeimage_m s"
    and "bufferCount_m s1 = bufferCount_m s"
proof -
  from assms obtain bufs where l: "updateBuffers_loop (completed b) (buffers_m s) = Returns bufs"
    and s1: "s1 = s\<lparr>buffers_m := bufs\<rparr>"
    by (cases "updateBuffers_loop (completed b) (buffers_m s)") (auto simp add: updateBuffers_def)
  from updateBuffers_loop_keeps [OF l] s1
  show "length (buffers_m s1) = length (buffers_m s)"
    and "\<And>i. i < length (buffers_m s) \<Longrightarrow> buf_index (buffers_m s1 ! i) = buf_index (buffers_m s ! i)"
    and "currentBuf_m s1 = currentBuf_m s"
    and "sizeimage_m s1 = sizeimage_m s"
    and "bufferCount_m s1 = bufferCount_m s"
    by simp_all
qed

lemma errno_pos [simp]:
  "\<not> EINVAL \<le> 0" "\<not> EBUSY \<le> 0" "\<not> EAGAIN \<le> 0" "\<not> ENOTTY \<le> 0" "\<not> EFAULT \<le> 0"
  "0 < EINVAL" "0 < EBUSY" "0 < EAGAIN" "0 < ENOTTY" "0 < EFAULT"
  by (simp_all add: errno_defs)

lemma dqbuf_dequeue_success:
  assumes "dqbuf_dequeue s arg b = Returns (ret, s', arg')" and "0 \<le> ret"
  shows "\<exists>s1. updateBuffers s b = Returns s1 \<and> unat (currentBuf_m s) < length (buffers_m s1) \<and>
     arg' = (buffers_m s1 ! unat (currentBuf_m s))
        \<lparr>buf_flags := buf_flags (buffers_m s1 ! unat (currentBuf_m s))
           AND NOT (V4L2_BUF_FLAG_QUEUED OR V4L2_BUF_FLAG_DONE),
         buf_length := sizeimage_m s\<rparr> \<and>
     s' = s1\<lparr>buffers_m := (buffers_m s1)[unat (currentBuf_m s) := arg'],
             currentBuf_m := (currentBuf_m s + 1) mod bufferCount_m s\<rparr> \<and> ret = 0"
proof (cases "updateBuffers s b")
  case (Returns s1)
  note f = updateBuffers_keeps(3-5) [OF Returns]
  from assms Returns show ?thesis
    by (auto simp add: dqbuf_dequeue_def Let_def f split: if_splits)
qed (use assms in \<open>auto simp add: dqbuf_dequeue_def split: if_splits\<close>)

lemma vidioc_dqbuf_success:
  assumes "vidioc_dqbuf s files file arg b = Returns (ret, s', arg')" and "0 \<le> ret"
  shows "dqbuf_dequeue s arg b = Returns (ret, s', arg') \<and> buf_index arg < bufferCount_m s \<and>
     hasOwnership s file \<and> isRunning_m (vcam_m s)"
  using assms
  by (auto simp add: vidioc_dqbuf_def waitForBufferAvailable_def split: if_splits)


lemma bind_outcome_Returns:
  "bind_outcome m k = Returns y \<Longrightarrow> \<exists>x. m = Returns x \<and> k x = Returns y"
  by (cases m) simp_all

lemma buffers_wf_iff:
  "buffers_wf s \<longleftrightarrow>
     length (buffers_m s) = unat (bufferCount_m s) \<and>
     (\<forall>i < length (buffers_m s). buf_index (buffers_m s ! i) = of_nat i) \<and>
     currentBuf_m s < bufferCount_m s"
  by (auto simp add: buffers_wf_def list_all_iff)

lemma vidioc_qbuf_wf:
  assumes "vidioc_qbuf s file arg b = Returns (ret, s1, arg1)" and "buffers_wf s"
  shows "buffers_wf s1 \<and> currentBuf_m s1 = currentBuf_m s \<and> bufferCount_m s1 = bufferCount_m s"
  using assms
  by (auto simp add: vidioc_qbuf_def Let_def buffers_wf_iff nth_list_update split: if_splits)

lemma vidioc_dqbuf_failure:
  assumes "vidioc_dqbuf s files file arg b = Returns (ret, s1, arg1)" and "\<not> 0 \<le> ret"
  shows "s1 = s"
proof -
  have "dqbuf_dequeue s arg b = Returns (ret, s1, arg1) \<Longrightarrow> s1 = s"
    using assms(2)
    by (cases "updateBuffers s b") (auto simp add: dqbuf_dequeue_def Let_def split: if_splits)
  with assms(1) show ?thesis
    by (auto simp add: vidioc_dqbuf_def waitForBufferAvailable_def split: if_splits)
qed

lemma vidioc_dqbuf_step:
  assumes dq: "vidioc_dqbuf s files file arg b = Returns (ret, s', arg')" and ok: "0 \<le> ret"
    and wf: "buffers_wf s"
  shows "buf_index arg' = currentBuf_m s \<and> buffers_wf s' \<and>
     currentBuf_m s' = (currentBuf_m s + 1) mod bufferCount_m s \<and>
     bufferCount_m s' = bufferCount_m s"
proof -
  from vidioc_dqbuf_success [OF dq ok] have dd: "dqbuf_dequeue s arg b = Returns (ret, s', arg')"
    by simp
  from dqbuf_dequeue_success [OF dd ok] obtain s1 where
    u: "updateBuffers s b = Returns s1" and lt: "unat (currentBuf_m s) < length (buffers_m s1)"
    and a: "arg' = (buffers_m s1 ! unat (currentBuf_m s))
        \<lparr>buf_flags := buf_flags (buffers_m s1 ! unat (currentBuf_m s))
           AND NOT (V4L2_BUF_FLAG_QUEUED OR V4L2_BUF_FLAG_DONE),
         buf_length := sizeimage_m s\<rparr>"
    and s': "s' = s1\<lparr>buffers_m := (buffers_m s1)[unat (currentBuf_m s) := arg'],
             currentBuf_m := (currentBuf_m s + 1) mod bufferCount_m s\<rparr>"
    by blast
  note k = updateBuffers_keeps [OF u]
  note cnt = k(5)
  from wf have len: "length (buffers_m s) = unat (bufferCount_m s)"
    and idx: "\<And>i. i < length (buffers_m s) \<Longrightarrow> buf_index (buffers_m s ! i) = of_nat i"
    and cur: "currentBuf_m s < bufferCount_m s"
    by (simp_all add: buffers_wf_iff)
  from lt k(1) have lt0: "unat (currentBuf_m s) < length (buffers_m s)" by simp
  have ia: "buf_index arg' = currentBuf_m s"
    using a k(2) [OF lt0] idx [OF lt0] by simp
  from cur have pos: "0 < bufferCount_m s"
    by (simp add: word_less_nat_alt)
  then have nxt: "(currentBuf_m s + 1) mod bufferCount_m s < bufferCount_m s"
    by (rule word_mod_less_divisor)
  have "buffers_wf s'"
    unfolding buffers_wf_iff s'
    using k(1) k(2) len idx nxt cnt ia lt0
    by (auto simp add: nth_list_update)
  with ia s' cnt show ?thesis by simp
qed

lemma run_ops_cursor:
  "buffers_wf s \<Longrightarrow> run_ops s files file ops = Returns (qs, ds, t) \<Longrightarrow>
   ds = cursor_seq (currentBuf_m s) (bufferCount_m s) (length ds)"
proof (induction ops arbitrary: s qs ds t)
  case Nil
  then show ?case by simp
next
  case (Cons op ops)
  show ?case
  proof (cases op)
    case (Qbuf arg b)
    with Cons.prems(2) obtain ret s1 arg1 qs1 where
      q: "vidioc_qbuf s file arg b = Returns (ret, s1, arg1)"
      and r: "run_ops s1 files file ops = Returns (qs1, ds, t)"
      by (auto dest!: bind_outcome_Returns)
    from vidioc_qbuf_wf [OF q Cons.prems(1)] Cons.IH [OF _ r] show ?thesis by simp
  next
    case (Dqbuf arg b)
    with Cons.prems(2) obtain ret s1 arg1 ds1 where
      d: "vidioc_dqbuf s files file arg b = Returns (ret, s1, arg1)"
      and r: "run_ops s1 files file ops = Returns (qs, ds1, t)"
      and ds: "ds = (if 0 \<le> ret then buf_index arg1 # ds1 else ds1)"
      by (auto dest!: bind_outcome_Returns)
    show ?thesis
    proof (cases "0 \<le> ret")
      case True
      from vidioc_dqbuf_step [OF d True Cons.prems(1)] Cons.IH [OF _ r] ds True
      show ?thesis by simp
    next
      case False
      from vidioc_dqbuf_failure [OF d False] Cons.IH [OF _ r] Cons.prems(1) ds False
      show ?thesis by simp
    qed
  qed
qed

lemma buf_index_capture_buffer: "buf_index (capture_buffer i) = i"
  by (simp add: capture_buffer_def)

text \<open>
  C1, as the code has it. On a proxy whose buffer table is as \<open>vidioc_reqbufs\<close> builds
  it, every successful \<open>vidioc_dqbuf\<close> drains the completions, returns the slot under
  the cursor whatever its state (nothing tests that it is done, or that it was queued),
  with the queued and done flags cleared and the length set to the frame size, writes
  that slot back and moves the cursor one step on, modulo the buffer count. Over any
  sequence of queue and dequeue calls the indices dequeued are therefore the successive
  values of the cursor, whatever was queued and whatever the backend completed, in
  whatever order.
\<close>

theorem dqbuf_round_robin:
  assumes wf: "buffers_wf s"
  shows "(\<forall>ret s' arg'. vidioc_dqbuf s files file arg b = Returns (ret, s', arg') \<and> 0 \<le> ret \<longrightarrow>
            (\<exists>s1. updateBuffers s b = Returns s1 \<and>
               arg' = (buffers_m s1 ! unat (currentBuf_m s))
                 \<lparr>buf_flags := buf_flags (buffers_m s1 ! unat (currentBuf_m s))
                    AND NOT (V4L2_BUF_FLAG_QUEUED OR V4L2_BUF_FLAG_DONE),
                  buf_length := sizeimage_m s\<rparr> \<and>
               buffers_m s' = (buffers_m s1)[unat (currentBuf_m s) := arg']) \<and>
            buf_index arg' = currentBuf_m s \<and>
            buf_flags arg' AND (V4L2_BUF_FLAG_QUEUED OR V4L2_BUF_FLAG_DONE) = 0 \<and>
            currentBuf_m s' = (currentBuf_m s + 1) mod bufferCount_m s) \<and>
         (\<forall>ops qs ds t. run_ops s files file ops = Returns (qs, ds, t) \<longrightarrow>
            ds = cursor_seq (currentBuf_m s) (bufferCount_m s) (length ds))"
proof (intro conjI allI impI)
  fix ret s' arg'
  assume a: "vidioc_dqbuf s files file arg b = Returns (ret, s', arg') \<and> 0 \<le> ret"
  then have dq: "vidioc_dqbuf s files file arg b = Returns (ret, s', arg')" and ok: "0 \<le> ret"
    by simp_all
  from vidioc_dqbuf_success [OF dq ok] have dd: "dqbuf_dequeue s arg b = Returns (ret, s', arg')"
    by simp
  from dqbuf_dequeue_success [OF dd ok] obtain s1 where
    u: "updateBuffers s b = Returns s1"
    and a': "arg' = (buffers_m s1 ! unat (currentBuf_m s))
        \<lparr>buf_flags := buf_flags (buffers_m s1 ! unat (currentBuf_m s))
           AND NOT (V4L2_BUF_FLAG_QUEUED OR V4L2_BUF_FLAG_DONE),
         buf_length := sizeimage_m s\<rparr>"
    and s': "s' = s1\<lparr>buffers_m := (buffers_m s1)[unat (currentBuf_m s) := arg'],
             currentBuf_m := (currentBuf_m s + 1) mod bufferCount_m s\<rparr>"
    by blast
  from u a' s' show "\<exists>s1. updateBuffers s b = Returns s1 \<and>
               arg' = (buffers_m s1 ! unat (currentBuf_m s))
                 \<lparr>buf_flags := buf_flags (buffers_m s1 ! unat (currentBuf_m s))
                    AND NOT (V4L2_BUF_FLAG_QUEUED OR V4L2_BUF_FLAG_DONE),
                  buf_length := sizeimage_m s\<rparr> \<and>
               buffers_m s' = (buffers_m s1)[unat (currentBuf_m s) := arg']"
    by simp
  from vidioc_dqbuf_step [OF dq ok wf]
  show "buf_index arg' = currentBuf_m s"
    and "currentBuf_m s' = (currentBuf_m s + 1) mod bufferCount_m s"
    by simp_all
  show "buf_flags arg' AND (V4L2_BUF_FLAG_QUEUED OR V4L2_BUF_FLAG_DONE) = 0"
    unfolding a' by (auto simp add: bit_eq_iff bit_simps)
next
  fix ops qs ds t
  assume "run_ops s files file ops = Returns (qs, ds, t)"
  with wf show "ds = cursor_seq (currentBuf_m s) (bufferCount_m s) (length ds)"
    by (rule run_ops_cursor)
qed

lemma queued1_eq:
  "queued1 = streaming2\<lparr>buffers_m := [slot 0 0x2000, slot 1 0x2002]\<rparr>"
  unfolding queued1_def vidioc_qbuf_def
  by (simp add: streaming2_eq allocated2_eq opened_eq capture_buffer_def example_backend_def
      validateBufferType_def validateMemoryType_def hasOwnership_def after_def Let_def
      const_defs slot_def word_le_nat_alt)

lemma buffers_wf_streaming2: "buffers_wf streaming2"
  by (simp add: buffers_wf_def streaming2_eq allocated2_eq opened_eq slot_def upt_rec)

lemma run_queue1_dequeue:
  "orders_of (run_ops streaming2 example_files 1 queue1_dequeue) = Some ([1], [0])"
proof -
  have q: "vidioc_qbuf streaming2 1 (capture_buffer 1) example_backend =
      Returns (0, queued1, (capture_buffer 1)\<lparr>buf_flags := 0x2002\<rparr>)"
    unfolding queued1_eq unfolding vidioc_qbuf_def
    by (simp add: streaming2_eq allocated2_eq opened_eq capture_buffer_def example_backend_def
      validateBufferType_def validateMemoryType_def hasOwnership_def Let_def
      const_defs slot_def word_le_nat_alt)
  have d: "ret_of (vidioc_dqbuf queued1 example_files 1 (capture_buffer 0)
             (completes [frame_done 1 1500])) = Some 0 \<and>
           buf_index (snd (snd (case vidioc_dqbuf queued1 example_files 1 (capture_buffer 0)
             (completes [frame_done 1 1500]) of Returns r \<Rightarrow> r))) = 0"
    unfolding vidioc_dqbuf_def dqbuf_dequeue_def updateBuffers_def
    by (simp add: queued1_eq streaming2_eq allocated2_eq opened_eq capture_buffer_def
      completes_def frame_done_def example_backend_def example_files_def example_file_def
      validateBufferType_def validateMemoryType_def hasOwnership_def Let_def ret_of_def
      const_defs slot_def word_le_nat_alt)
  then obtain s2 a2 where d2: "vidioc_dqbuf queued1 example_files 1 (capture_buffer 0)
             (completes [frame_done 1 1500]) = Returns (0, s2, a2)" and i2: "buf_index a2 = 0"
    by (cases "vidioc_dqbuf queued1 example_files 1 (capture_buffer 0)
             (completes [frame_done 1 1500])") (auto simp add: ret_of_def)
  from q d2 i2 show ?thesis
    by (simp add: queue1_dequeue_def orders_of_def buf_index_capture_buffer)
qed

theorem dqbuf_round_robin_witness:
  "buffers_wf streaming2 \<and>
   orders_of (run_ops streaming2 example_files 1 queue1_dequeue) =
     Some ([1], cursor_seq (currentBuf_m streaming2) (bufferCount_m streaming2) 1)"
proof -
  from run_queue1_dequeue obtain t where
    r: "run_ops streaming2 example_files 1 queue1_dequeue = Returns ([1], [0], t)"
    by (cases "run_ops streaming2 example_files 1 queue1_dequeue")
      (auto simp add: orders_of_def)
  from dqbuf_round_robin [OF buffers_wf_streaming2, of example_files 1 undefined undefined] r
  have "[0] = cursor_seq (currentBuf_m streaming2) (bufferCount_m streaming2) (length [0 :: u32])"
    by blast
  with r buffers_wf_streaming2 show ?thesis by (simp add: orders_of_def)
qed

text \<open>
  File 1 queues buffer 1 and nothing else, and the backend completes buffer 1. The
  dequeue that follows succeeds and returns buffer 0, which was never queued and is not
  done: the dequeue order [0] is not the queue order [1].
\<close>

theorem dqbuf_fifo_counterexample:
  "orders_of (run_ops streaming2 example_files 1 queue1_dequeue) = Some ([1], [0]) \<and>
   bind_outcome (updateBuffers queued1 (completes [frame_done 1 1500]))
     (\<lambda>s1. Returns (buf_flags (buffers_m s1 ! 0) AND
        (V4L2_BUF_FLAG_QUEUED OR V4L2_BUF_FLAG_DONE))) = Returns 0"
proof -
  have "bind_outcome (updateBuffers queued1 (completes [frame_done 1 1500]))
     (\<lambda>s1. Returns (buf_flags (buffers_m s1 ! 0) AND
        (V4L2_BUF_FLAG_QUEUED OR V4L2_BUF_FLAG_DONE))) = Returns 0"
    unfolding updateBuffers_def
    by (simp add: queued1_eq streaming2_eq allocated2_eq opened_eq completes_def frame_done_def
        example_backend_def Let_def const_defs slot_def)
  with run_queue1_dequeue show ?thesis by simp
qed

subsection \<open>The timestamp of a completed buffer\<close>

lemma updateBuffers_loop_success:
  assumes "unat i < length bufs"
  shows "updateBuffers_loop [frame_done i t] bufs =
     Returns (bufs[unat i := (bufs ! unat i)
       \<lparr>buf_bytesused := 614400,
        buf_flags := buf_flags (bufs ! unat i) OR V4L2_BUF_FLAG_DONE,
        buf_field := V4L2_FIELD_NONE,
        buf_tv_sec := t div 1000000000,
        buf_tv_usec := t mod 1000000,
        buf_sequence := 0\<rparr>])"
  using assms by (simp add: frame_done_def Let_def)

text \<open>
  C10. A frame completes with success 1 s and 1500 ns after the clock's origin: the
  split at microsecond precision is 1 s and 1 us, that is 1000001 us. The code
  records 1 s and 1500 us: it takes the nanoseconds modulo \<open>10^6\<close> where the
  microseconds are \<open>(t div 10^3) mod 10^6\<close>.
\<close>

theorem updateBuffers_timestamp_1000001500:
  "updateBuffers_loop [frame_done 0 1000001500] [slot 0 0x2002] =
     Returns [(slot 0 0x2006)\<lparr>buf_bytesused := 614400, buf_field := 1, buf_tv_sec := 1,
       buf_tv_usec := 1500\<rparr>] \<and>
   (1000001500 mod 10 ^ 9) div 10 ^ 3 = (1 :: u64) \<and>
   1 * 10 ^ 6 + 1500 \<noteq> (1000001500 div 10 ^ 3 :: u64)"
  by (simp add: frame_done_def slot_def Let_def const_defs)

theorem updateBuffers_timestamp_1000001500_witness:
  "bind_outcome (updateBuffers_loop [frame_done 0 1000001500] [slot 0 0x2002])
     (\<lambda>bufs. Returns (buf_tv_sec (bufs ! 0), buf_tv_usec (bufs ! 0))) = Returns (1, 1500)"
  using updateBuffers_timestamp_1000001500 by simp

subsection \<open>The buffer count and the buffer table\<close>

lemma failed_alloc_eq:
  "vidioc_reqbufs opened example_files 1 (capture_request 4) alloc_fails =
     Returns (- ENOMEM, opened\<lparr>bufferCount_m := 4\<rparr>,
       \<lparr>rb_count = 0, rb_type = 1, rb_memory = 1, rb_capabilities = 1\<rparr>)"
  unfolding vidioc_reqbufs_def
  by (simp add: opened_eq capture_request_def alloc_fails_def example_backend_def
      validateBufferType_def validateMemoryType_def maxPriority_example file_priority_example
      hasOwnership_def Let_def setFmtFromConfig_example calculateSizeImage_example
      example_config_fields example_pix_def const_defs)

text \<open>
  C4. File 1 opens the device and requests four buffers; the backend accepts the
  configuration and then fails to allocate. \<open>vidioc_reqbufs\<close> returns the error with
  \<open>bufferCount_\<close> already set to 4 and the buffer table empty, and the next
  \<open>vidioc_querybuf\<close> of buffer 0 passes the test against \<open>bufferCount_\<close> and reads
  \<open>buffers_[0]\<close> of the empty table.
\<close>

theorem reqbufs_alloc_failure_count:
  "ret_of (vidioc_reqbufs opened example_files 1 (capture_request 4) alloc_fails) = Some (- ENOMEM) \<and>
   bufferCount_m failed_alloc = 4 \<and> buffers_m failed_alloc = [] \<and>
   vidioc_querybuf failed_alloc 1 (capture_buffer 0) example_backend = Undefined"
proof -
  have f: "failed_alloc = opened\<lparr>bufferCount_m := 4\<rparr>"
    unfolding failed_alloc_def failed_alloc_eq by (simp add: after_def)
  have r: "ret_of (vidioc_reqbufs opened example_files 1 (capture_request 4) alloc_fails) =
      Some (- ENOMEM)"
    unfolding failed_alloc_eq by (simp add: ret_of_def)
  have c: "bufferCount_m failed_alloc = 4" and e: "buffers_m failed_alloc = []"
    unfolding f by (simp_all add: opened_eq)
  have q: "vidioc_querybuf failed_alloc 1 (capture_buffer 0) example_backend = Undefined"
    unfolding f vidioc_querybuf_def updateBuffers_def
    by (simp add: opened_eq capture_buffer_def example_backend_def validateBufferType_def
        const_defs)
  from r c e q show ?thesis by blast
qed

theorem reqbufs_alloc_failure_count_witness:
  "bufferCount_m failed_alloc \<noteq> 0 \<and> length (buffers_m failed_alloc) \<noteq> unat (bufferCount_m failed_alloc)"
  using reqbufs_alloc_failure_count by simp

subsection \<open>Releasing the buffers\<close>

text \<open>
  C3, as the code has it. A \<open>vidioc_reqbufs\<close> with count 0 always returns. It fails
  with \<open>EINVAL\<close> on an invalid buffer type or memory type, and with \<open>EBUSY\<close> when the
  caller's priority is below the maximum or another file owns the device, whatever the
  mappings and the stream. Past these tests, so from a file that owns the device or finds
  it unowned, it succeeds if and only if no buffer is mapped and the stream is not
  running, and fails with \<open>EBUSY\<close> otherwise. Every failure leaves the proxy as it was.
  On success the buffer table is empty, the buffer count is zero and no file owns the
  device.
\<close>

theorem reqbufs_zero:
  assumes "rb_count arg = 0"
  shows "\<exists>ret s' arg'. vidioc_reqbufs s files file arg b = Returns (ret, s', arg') \<and>
     (\<not> validateBufferType (rb_type arg) \<or> \<not> validateMemoryType (rb_memory arg) \<longrightarrow>
        ret = - EINVAL \<and> s' = s) \<and>
     (validateBufferType (rb_type arg) \<and> validateMemoryType (rb_memory arg) \<longrightarrow>
        (priority_less (file_priority (files file)) (maxPriority files s) \<or>
         (owner_m s \<noteq> None \<and> owner_m s \<noteq> Some file) \<longrightarrow>
           ret = - EBUSY \<and> s' = s) \<and>
        (\<not> priority_less (file_priority (files file)) (maxPriority files s) \<and>
         (owner_m s = None \<or> owner_m s = Some file) \<longrightarrow>
           (ret = 0 \<longleftrightarrow> mmaps_m s = [] \<and> \<not> isRunning_m (vcam_m s)) \<and>
           (ret \<noteq> 0 \<longrightarrow> ret = - EBUSY \<and> s' = s) \<and>
           (ret = 0 \<longrightarrow>
              s' = s\<lparr>buffers_m := [], bufferCount_m := 0, owner_m := None\<rparr>)))"
proof -
  let ?low = "priority_less (file_priority (files file)) (maxPriority files s)"
  consider (invalid) "\<not> validateBufferType (rb_type arg) \<or> \<not> validateMemoryType (rb_memory arg)"
    | (low) "validateBufferType (rb_type arg)" "validateMemoryType (rb_memory arg)" ?low
    | (other) "validateBufferType (rb_type arg)" "validateMemoryType (rb_memory arg)"
        "\<not> ?low" "\<not> (owner_m s = None \<or> owner_m s = Some file)"
    | (pass) "validateBufferType (rb_type arg)" "validateMemoryType (rb_memory arg)"
        "\<not> ?low" "owner_m s = None \<or> owner_m s = Some file"
    by blast
  then show ?thesis
  proof cases
    case invalid
    then show ?thesis by (auto simp add: vidioc_reqbufs_def)
  next
    case low
    then show ?thesis by (simp add: vidioc_reqbufs_def)
  next
    case other
    then show ?thesis by (auto simp add: vidioc_reqbufs_def hasOwnership_def)
  next
    case pass
    with assms show ?thesis
      by (auto simp add: vidioc_reqbufs_def hasOwnership_def Let_def release_def
          freeBuffers_def errno_defs)
  qed
qed

lemma two_open_eq: "two_open = allocated2\<lparr>refcount_m := 2, files_m := [2, 1]\<rparr>"
  unfolding two_open_def open_def
  by (simp add: allocated2_eq opened_eq Let_def set_insert_def)

theorem reqbufs_zero_witness:
  "validateBufferType (rb_type (capture_request 0)) \<and>
   validateMemoryType (rb_memory (capture_request 0)) \<and>
   rb_count (capture_request 0) = 0 \<and>
   \<not> priority_less (file_priority (example_files 1)) (maxPriority example_files two_open) \<and>
   owner_m two_open = Some 1 \<and> mmaps_m two_open = [] \<and> \<not> isRunning_m (vcam_m two_open) \<and>
   ret_of (vidioc_reqbufs two_open example_files 1 (capture_request 0) example_backend) = Some 0 \<and>
   owner_m (after two_open
     (vidioc_reqbufs two_open example_files 1 (capture_request 0) example_backend)) = None"
proof -
  have h1: "validateBufferType (rb_type (capture_request 0))"
    and h2: "validateMemoryType (rb_memory (capture_request 0))"
    and h3: "rb_count (capture_request 0) = 0"
    by (simp_all add: capture_request_def validateBufferType_def validateMemoryType_def)
  have h4: "\<not> priority_less (file_priority (example_files 1))
      (maxPriority example_files two_open)"
    by (simp add: maxPriority_example file_priority_example)
  have h5: "owner_m two_open = Some 1" and m: "mmaps_m two_open = []"
    and r: "\<not> isRunning_m (vcam_m two_open)"
    by (simp_all add: two_open_eq allocated2_eq opened_eq)
  from reqbufs_zero [OF h3, of two_open example_files 1 example_backend] h1 h2 h4 h5 m r
  obtain s' arg' where
    "vidioc_reqbufs two_open example_files 1 (capture_request 0) example_backend =
       Returns (0, s', arg')" and "owner_m s' = None"
    by auto
  with h1 h2 h3 h4 h5 m r show ?thesis by (simp add: ret_of_def after_def)
qed

text \<open>
  File 1 owns the device, nothing is mapped and the stream is not running; file 2 asks
  for zero buffers and is refused with \<open>EBUSY\<close>.
\<close>

theorem reqbufs_zero_counterexample:
  "mmaps_m two_open = [] \<and> \<not> isRunning_m (vcam_m two_open) \<and>
   ret_of (vidioc_reqbufs two_open example_files 2 (capture_request 0) example_backend) =
     Some (- EBUSY)"
  unfolding vidioc_reqbufs_def
  by (simp add: two_open_eq allocated2_eq opened_eq capture_request_def
      validateBufferType_def validateMemoryType_def maxPriority_example file_priority_example
      hasOwnership_def ret_of_def)

subsection \<open>Priorities\<close>










subsection \<open>Stopping the stream\<close>

lemma vidioc_dqbuf_not_running:
  assumes "\<not> isRunning_m (vcam_m s)"
  shows "vidioc_dqbuf s files file arg b =
     Returns (if bufferCount_m s \<le> buf_index arg then - EINVAL
              else if \<not> hasOwnership s file then - EBUSY else - EINVAL, s, arg)"
  using assms by (simp add: vidioc_dqbuf_def)

lemma clear_all_flags:
  "list_all (\<lambda>buf. buf_flags buf AND (V4L2_BUF_FLAG_QUEUED OR V4L2_BUF_FLAG_DONE) = 0)
     (map (\<lambda>buf. buf\<lparr>buf_flags := buf_flags buf
        AND NOT (V4L2_BUF_FLAG_QUEUED OR V4L2_BUF_FLAG_DONE)\<rparr>) bufs)"
  by (auto simp add: list_all_iff bit_eq_iff bit_simps)

text \<open>
  C8, as the code has it. A \<open>vidioc_streamoff\<close> is refused, the proxy left as it was,
  with \<open>EINVAL\<close> on an invalid buffer type and with \<open>EBUSY\<close> when the caller's
  priority is below the maximum or another file owns the device. One that gets past
  these tests clears the queued and done flags of every slot, whatever they were and
  whatever the backend answers. When it succeeds the stream is not running, and a
  \<open>vidioc_dqbuf\<close> issued next, by any file with any argument, returns at once and
  leaves the proxy as it is: with \<open>EINVAL\<close> when the caller owns the device (or names
  a buffer index out of range), with \<open>EBUSY\<close> when it does not own it.
\<close>

theorem streamoff_then_dqbuf:
  assumes "vidioc_streamoff s files file arg b = Returns (ret, s', arg')"
  shows "(\<not> validateBufferType arg \<longrightarrow> ret = - EINVAL \<and> s' = s) \<and>
         (validateBufferType arg \<and>
          (priority_less (file_priority (files file)) (maxPriority files s) \<or>
           \<not> (hasOwnership s file \<or> owner_m s = None)) \<longrightarrow> ret = - EBUSY \<and> s' = s) \<and>
         (validateBufferType arg \<and>
          \<not> priority_less (file_priority (files file)) (maxPriority files s) \<and>
          (hasOwnership s file \<or> owner_m s = None) \<longrightarrow>
            buffers_m s' = map (\<lambda>buf. buf\<lparr>buf_flags := buf_flags buf
               AND NOT (V4L2_BUF_FLAG_QUEUED OR V4L2_BUF_FLAG_DONE)\<rparr>) (buffers_m s)) \<and>
         (0 \<le> ret \<longrightarrow>
            list_all (\<lambda>buf. buf_flags buf AND (V4L2_BUF_FLAG_QUEUED OR V4L2_BUF_FLAG_DONE) = 0)
              (buffers_m s') \<and>
            length (buffers_m s') = length (buffers_m s) \<and>
            owner_m s' = owner_m s \<and>
            \<not> isRunning_m (vcam_m s') \<and>
            (\<forall>files2 g a b2. vidioc_dqbuf s' files2 g a b2 =
               Returns (if bufferCount_m s' \<le> buf_index a then - EINVAL
                        else if \<not> hasOwnership s' g then - EBUSY else - EINVAL, s', a)))"
proof -
  have I: "ret = - EINVAL \<and> s' = s" if "\<not> validateBufferType arg"
    using assms that by (simp add: vidioc_streamoff_def)
  have R: "ret = - EBUSY \<and> s' = s"
    if "validateBufferType arg \<and>
        (priority_less (file_priority (files file)) (maxPriority files s) \<or>
         \<not> (hasOwnership s file \<or> owner_m s = None))"
    using assms that by (auto simp add: vidioc_streamoff_def split: if_splits)
  have A: "buffers_m s' = map (\<lambda>buf. buf\<lparr>buf_flags := buf_flags buf
               AND NOT (V4L2_BUF_FLAG_QUEUED OR V4L2_BUF_FLAG_DONE)\<rparr>) (buffers_m s)"
    if "validateBufferType arg \<and>
        \<not> priority_less (file_priority (files file)) (maxPriority files s) \<and>
        (hasOwnership s file \<or> owner_m s = None)"
    using assms that
    by (auto simp add: vidioc_streamoff_def vcam_streamOff_def split: if_splits)
  have B: "list_all (\<lambda>buf. buf_flags buf AND (V4L2_BUF_FLAG_QUEUED OR V4L2_BUF_FLAG_DONE) = 0)
              (buffers_m s') \<and>
        length (buffers_m s') = length (buffers_m s) \<and>
        owner_m s' = owner_m s \<and>
        \<not> isRunning_m (vcam_m s') \<and>
        (\<forall>files2 g a b2. vidioc_dqbuf s' files2 g a b2 =
               Returns (if bufferCount_m s' \<le> buf_index a then - EINVAL
                        else if \<not> hasOwnership s' g then - EBUSY else - EINVAL, s', a))"
    if ok: "0 \<le> ret"
  proof -
    from ok assms have s': "s' = s\<lparr>vcam_m := (vcam_m s)\<lparr>isRunning_m := False\<rparr>,
        buffers_m := map (\<lambda>buf. buf\<lparr>buf_flags := buf_flags buf
                 AND NOT (V4L2_BUF_FLAG_QUEUED OR V4L2_BUF_FLAG_DONE)\<rparr>) (buffers_m s)\<rparr>"
      by (auto simp add: vidioc_streamoff_def vcam_streamOff_def split: if_splits)
    then have nr: "\<not> isRunning_m (vcam_m s')" by simp
    have fl: "list_all (\<lambda>buf. buf_flags buf AND (V4L2_BUF_FLAG_QUEUED OR V4L2_BUF_FLAG_DONE) = 0)
              (buffers_m s')"
      unfolding s' using clear_all_flags [of "buffers_m s"] by simp
    from s' have "length (buffers_m s') = length (buffers_m s)" and "owner_m s' = owner_m s"
      by simp_all
    with fl nr vidioc_dqbuf_not_running [OF nr] show ?thesis by blast
  qed
  from I R A B show ?thesis by blast
qed

lemma streamoff_queued1:
  "vidioc_streamoff queued1 example_files 1 V4L2_BUF_TYPE_VIDEO_CAPTURE example_backend =
     Returns (0, allocated2, V4L2_BUF_TYPE_VIDEO_CAPTURE)"
  unfolding vidioc_streamoff_def
  by (simp add: queued1_eq streaming2_eq allocated2_eq opened_eq example_backend_def
      validateBufferType_def maxPriority_example file_priority_example hasOwnership_def
      vcam_streamOff_def slot_def const_defs)

theorem streamoff_then_dqbuf_witness:
  "buffers_m queued1 = [slot 0 0x2000, slot 1 0x2002] \<and>
   ret_of (vidioc_streamoff queued1 example_files 1 V4L2_BUF_TYPE_VIDEO_CAPTURE
     example_backend) = Some 0 \<and>
   buffers_m stopped_by_1 = [slot 0 0x2000, slot 1 0x2000] \<and>
   hasOwnership stopped_by_1 1 \<and>
   vidioc_dqbuf stopped_by_1 example_files 1 (capture_buffer 0) example_backend =
     Returns (- EINVAL, stopped_by_1, capture_buffer 0)"
proof -
  have q: "buffers_m queued1 = [slot 0 0x2000, slot 1 0x2002]"
    by (simp add: queued1_eq)
  have st: "stopped_by_1 = allocated2"
    unfolding stopped_by_1_def streamoff_queued1 by (simp add: after_def)
  have bs: "buffers_m allocated2 = [slot 0 0x2000, slot 1 0x2000]"
    by (simp add: allocated2_eq)
  have own: "hasOwnership allocated2 1"
    by (simp add: hasOwnership_def allocated2_eq)
  from streamoff_then_dqbuf [OF streamoff_queued1]
  have "vidioc_dqbuf allocated2 example_files 1 (capture_buffer 0) example_backend =
      Returns (if bufferCount_m allocated2 \<le> buf_index (capture_buffer 0) then - EINVAL
               else if \<not> hasOwnership allocated2 1 then - EBUSY else - EINVAL,
               allocated2, capture_buffer 0)"
    by simp
  with own have "vidioc_dqbuf allocated2 example_files 1 (capture_buffer 0) example_backend =
      Returns (- EINVAL, allocated2, capture_buffer 0)"
    by simp
  with own st q bs show ?thesis unfolding streamoff_queued1 by (simp add: ret_of_def)
qed

lemma orphaned_eq:
  "orphaned = streaming2\<lparr>refcount_m := 1, files_m := [2], owner_m := None\<rparr>"
  unfolding orphaned_def close_def open_def
  by (simp add: streaming2_eq allocated2_eq opened_eq Let_def set_erase_def set_insert_def
      release_def)

lemma streamoff_orphaned:
  "vidioc_streamoff orphaned example_files 2 V4L2_BUF_TYPE_VIDEO_CAPTURE example_backend =
     Returns (0, allocated2\<lparr>refcount_m := 1, files_m := [2], owner_m := None\<rparr>,
       V4L2_BUF_TYPE_VIDEO_CAPTURE)"
  unfolding vidioc_streamoff_def
  by (simp add: orphaned_eq streaming2_eq allocated2_eq opened_eq example_backend_def
      validateBufferType_def maxPriority_example file_priority_example hasOwnership_def
      vcam_streamOff_def slot_def const_defs)

text \<open>
  File 1 allocates two buffers and starts the stream, file 2 opens the device and file
  1 closes it: the stream is still running and no file owns the device. File 2 stops
  the stream, with success, and dequeues: the call fails with \<open>EBUSY\<close>, not with
  \<open>EINVAL\<close>.
\<close>

theorem streamoff_then_dqbuf_counterexample:
  "isRunning_m (vcam_m orphaned) \<and>
   ret_of (vidioc_streamoff orphaned example_files 2 V4L2_BUF_TYPE_VIDEO_CAPTURE
     example_backend) = Some 0 \<and>
   \<not> isRunning_m (vcam_m stopped_by_2) \<and>
   ret_of (vidioc_dqbuf stopped_by_2 example_files 2 (capture_buffer 0) example_backend) =
     Some (- EBUSY) \<and>
   - EBUSY \<noteq> - EINVAL"
proof -
  have run: "isRunning_m (vcam_m orphaned)"
    by (simp add: orphaned_eq streaming2_eq)
  have st: "stopped_by_2 = allocated2\<lparr>refcount_m := 1, files_m := [2], owner_m := None\<rparr>"
    unfolding stopped_by_2_def streamoff_orphaned by (simp add: after_def)
  have nr: "\<not> isRunning_m (vcam_m stopped_by_2)"
    unfolding st by (simp add: allocated2_eq opened_eq)
  have "ret_of (vidioc_dqbuf stopped_by_2 example_files 2 (capture_buffer 0) example_backend) =
     Some (- EBUSY)"
    unfolding vidioc_dqbuf_def st
    by (simp add: allocated2_eq opened_eq capture_buffer_def hasOwnership_def
        ret_of_def word_le_nat_alt)
  with run nr show ?thesis unfolding streamoff_orphaned by (simp add: ret_of_def errno_defs)
qed

subsection \<open>The dispatcher\<close>

lemma vidioc_values:
  "VIDIOC_QUERYCAP = 0x80685600" "VIDIOC_ENUM_FMT = 0xC0405602" "VIDIOC_G_FMT = 0xC0D05604"
  "VIDIOC_S_FMT = 0xC0D05605" "VIDIOC_REQBUFS = 0xC0145608" "VIDIOC_QUERYBUF = 0xC0585609"
  "VIDIOC_QBUF = 0xC058560F" "VIDIOC_DQBUF = 0xC0585611" "VIDIOC_STREAMON = 0x40045612"
  "VIDIOC_STREAMOFF = 0x40045613" "VIDIOC_ENUMINPUT = 0xC050561A" "VIDIOC_S_CTRL = 0xC008561C"
  "VIDIOC_G_INPUT = 0x80045626" "VIDIOC_S_INPUT = 0xC0045627" "VIDIOC_TRY_FMT = 0xC0D05640"
  "VIDIOC_G_PRIORITY = 0x80045643" "VIDIOC_S_PRIORITY = 0x40045644"
  "VIDIOC_ENUM_FRAMESIZES = 0xC02C564A"
  by (simp_all add: VIDIOC_QUERYCAP_def VIDIOC_ENUM_FMT_def VIDIOC_G_FMT_def VIDIOC_S_FMT_def
      VIDIOC_REQBUFS_def VIDIOC_QUERYBUF_def VIDIOC_QBUF_def VIDIOC_DQBUF_def
      VIDIOC_STREAMON_def VIDIOC_STREAMOFF_def VIDIOC_ENUMINPUT_def VIDIOC_S_CTRL_def
      VIDIOC_G_INPUT_def VIDIOC_S_INPUT_def VIDIOC_TRY_FMT_def VIDIOC_G_PRIORITY_def
      VIDIOC_S_PRIORITY_def VIDIOC_ENUM_FRAMESIZES_def IOR_def IOW_def IOWR_def IOC_def
      IOC_READ_def IOC_WRITE_def)

lemma supported_have_direction:
  "request \<in> set supportedIoctls \<Longrightarrow>
   IOC_DIR request AND IOC_WRITE \<noteq> 0 \<or> IOC_DIR request AND IOC_READ \<noteq> 0"
  by (auto simp add: supportedIoctls_def vidioc_values IOC_DIR_def IOC_READ_def IOC_WRITE_def)

text \<open>
  C9, as the code has it. \<open>ioctl\<close> tests in this order: a null argument for a request
  whose direction has the write bit fails with \<open>EFAULT\<close>, whether or not the request is
  supported; then a request outside the supported set fails with \<open>ENOTTY\<close>; then a
  null argument for a request whose direction has the read bit fails with \<open>EFAULT\<close>.
  Every supported request has a direction, so a supported request with a null argument
  always fails with \<open>EFAULT\<close>. No failed test changes the proxy, the files or the
  argument, and \<open>ENOTTY\<close> is none of the codes of the argument tests.
\<close>

theorem ioctl_validation:
  "(arg = None \<and> IOC_DIR request AND IOC_WRITE \<noteq> 0 \<longrightarrow>
      ioctl s files file request arg b = Returns (ioctl_fail EFAULT s files arg)) \<and>
   (request \<notin> set supportedIoctls \<and> (arg \<noteq> None \<or> IOC_DIR request AND IOC_WRITE = 0) \<longrightarrow>
      ioctl s files file request arg b = Returns (ioctl_fail ENOTTY s files arg)) \<and>
   (request \<in> set supportedIoctls \<and> arg = None \<longrightarrow>
      ioctl s files file request arg b = Returns (ioctl_fail EFAULT s files arg)) \<and>
   io_errno (ioctl_fail ENOTTY s files arg) \<noteq> io_errno (ioctl_fail EFAULT s files arg) \<and>
   ENOTTY \<noteq> EFAULT \<and> ENOTTY \<noteq> EINVAL \<and> ENOTTY \<noteq> EBUSY \<and> ENOTTY \<noteq> EAGAIN"
proof (intro conjI impI)
  assume "request \<in> set supportedIoctls \<and> arg = None"
  with supported_have_direction [of request]
  show "ioctl s files file request arg b = Returns (ioctl_fail EFAULT s files arg)"
    by (auto simp add: ioctl_def)
qed (auto simp add: ioctl_def ioctl_fail_def errno_defs)

theorem ioctl_validation_witness:
  "VIDIOC_S_CTRL \<notin> set supportedIoctls \<and>
   ioctl opened example_files 1 VIDIOC_S_CTRL (Some (Arg_int 0)) example_backend =
     Returns (ioctl_fail ENOTTY opened example_files (Some (Arg_int 0))) \<and>
   ioctl opened example_files 1 VIDIOC_QBUF None example_backend =
     Returns (ioctl_fail EFAULT opened example_files None)"
proof -
  have n: "VIDIOC_S_CTRL \<notin> set supportedIoctls"
    by (simp add: supportedIoctls_def vidioc_values)
  have q: "VIDIOC_QBUF \<in> set supportedIoctls"
    by (simp add: supportedIoctls_def)
  from ioctl_validation [of "Some (Arg_int 0)" VIDIOC_S_CTRL opened example_files 1 example_backend]
    ioctl_validation [of None VIDIOC_QBUF opened example_files 1 example_backend] n q
  show ?thesis by simp
qed

text \<open>
  \<open>VIDIOC_S_CTRL\<close> is not supported and its direction has the write bit: with a null
  argument the call fails with \<open>EFAULT\<close>, before the supported set is looked at.
\<close>

theorem ioctl_validation_counterexample:
  "VIDIOC_S_CTRL \<notin> set supportedIoctls \<and>
   ioctl opened example_files 1 VIDIOC_S_CTRL None example_backend =
     Returns (ioctl_fail EFAULT opened example_files None) \<and>
   EFAULT \<noteq> ENOTTY"
  by (simp add: supportedIoctls_def vidioc_values ioctl_def IOC_DIR_def IOC_WRITE_def errno_defs)

subsection \<open>Trying a format\<close>

lemma find_in_set: "find P xs = Some x \<Longrightarrow> x \<in> set xs"
  by (induction xs) (auto split: if_splits)

lemma drmToV4L2_table:
  "drmToV4L2 (PixelFormat_of 0x34324752) = 0x33524742"
  "drmToV4L2 (PixelFormat_of 0x34324742) = 0x33424752"
  "drmToV4L2 (PixelFormat_of 0x34324142) = 0x34324142"
  "drmToV4L2 (PixelFormat_of 0x59565955) = 0x59565955"
  "drmToV4L2 (PixelFormat_of 0x59555956) = 0x59555956"
  "drmToV4L2 (PixelFormat_of 0x56595559) = 0x56595559"
  "drmToV4L2 (PixelFormat_of 0x55595659) = 0x55595659"
  "drmToV4L2 (PixelFormat_of 0x3231564E) = 0x3231564E"
  "drmToV4L2 (PixelFormat_of 0x3132564E) = 0x3132564E"
  "drmToV4L2 (PixelFormat_of 0x3631564E) = 0x3631564E"
  "drmToV4L2 (PixelFormat_of 0x3136564E) = 0x3136564E"
  "drmToV4L2 (PixelFormat_of 0x3432564E) = 0x3432564E"
  "drmToV4L2 (PixelFormat_of 0x3234564E) = 0x3234564E"
  "drmToV4L2 (PixelFormat_of 0x32315559) = 0x32315559"
  "drmToV4L2 (PixelFormat_of 0x36315559) = 0x50323234"
  "drmToV4L2 (PixelFormat_of 0x47504A4D) = 0x47504A4D"
  "drmToV4L2 PixelFormat_default = 0"
  by (simp_all add: drmToV4L2_def pixelFormatInfo_values info_def PixelFormat_of_def
      PixelFormat_default_def)

lemma v4l2ToDrm_table:
  "v4l2ToDrm 0x33524742 = PixelFormat_of 0x34324752"
  "v4l2ToDrm 0x33424752 = PixelFormat_of 0x34324742"
  "v4l2ToDrm 0x34324142 = PixelFormat_of 0x34324142"
  "v4l2ToDrm 0x59565955 = PixelFormat_of 0x59565955"
  "v4l2ToDrm 0x59555956 = PixelFormat_of 0x59555956"
  "v4l2ToDrm 0x56595559 = PixelFormat_of 0x56595559"
  "v4l2ToDrm 0x55595659 = PixelFormat_of 0x55595659"
  "v4l2ToDrm 0x3231564E = PixelFormat_of 0x3231564E"
  "v4l2ToDrm 0x3132564E = PixelFormat_of 0x3132564E"
  "v4l2ToDrm 0x3631564E = PixelFormat_of 0x3631564E"
  "v4l2ToDrm 0x3136564E = PixelFormat_of 0x3136564E"
  "v4l2ToDrm 0x3432564E = PixelFormat_of 0x3432564E"
  "v4l2ToDrm 0x3234564E = PixelFormat_of 0x3234564E"
  "v4l2ToDrm 0x32315559 = PixelFormat_of 0x32315559"
  "v4l2ToDrm 0x50323234 = PixelFormat_of 0x36315559"
  "v4l2ToDrm 0x47504A4D = PixelFormat_of 0x47504A4D"
  "v4l2ToDrm 0 = PixelFormat_default"
  by (simp_all add: v4l2ToDrm_def pixelFormatInfo_values info_def)

lemma format_info: "format (info f v n ps) = f"
  by (simp add: info_def)

lemma table_roundtrip:
  "i \<in> set pixelFormatInfo \<Longrightarrow> v4l2ToDrm (drmToV4L2 (format i)) = format i"
  unfolding pixelFormatInfo_values
  by (auto simp add: format_info drmToV4L2_table v4l2ToDrm_table)

lemma v4l2ToDrm_roundtrip: "v4l2ToDrm (drmToV4L2 (v4l2ToDrm p)) = v4l2ToDrm p"
proof (cases "find (\<lambda>i. v4l2Format i = p) pixelFormatInfo")
  case None
  then have "v4l2ToDrm p = PixelFormat_default" by (simp add: v4l2ToDrm_def)
  then show ?thesis by (simp add: drmToV4L2_table v4l2ToDrm_table)
next
  case (Some i)
  then have "v4l2ToDrm p = format i" and "i \<in> set pixelFormatInfo"
    by (simp_all add: v4l2ToDrm_def find_in_set)
  with table_roundtrip show ?thesis by simp
qed

lemma Size_of_eta: "Size_of (width sz) (height sz) = sz"
  by (simp add: Size_of_def)

lemma first_or_undefined_Returns:
  "first_or_undefined xs = Returns x \<Longrightarrow> xs \<noteq> [] \<and> x = hd xs \<and> x \<in> set xs"
  by (cases xs) (simp_all add: first_or_undefined_def)

lemma tryFormat_twice:
  assumes t: "tryFormat cfg arg = Returns arg'" and rt: "first_encoding_roundtrips cfg"
  shows "tryFormat cfg arg' = Returns arg'"
proof -
  let ?F = "pixelformats (cfg_formats cfg)"
  let ?req = "v4l2ToDrm (pixelformat (fmt_pix arg))"
  let ?rsz = "Size_of (pix_width (fmt_pix arg)) (pix_height (fmt_pix arg))"
  from t obtain fmt where
    f: "(if ?req \<notin> set ?F then first_or_undefined ?F else Returns ?req) = Returns fmt"
    by (auto simp add: tryFormat_def Let_def dest!: bind_outcome_Returns)
  with t obtain sz where
    z: "(if ?rsz \<notin> set (sizes (cfg_formats cfg) fmt)
         then first_or_undefined (sizes (cfg_formats cfg) fmt) else Returns ?rsz) = Returns sz"
    by (auto simp add: tryFormat_def Let_def dest!: bind_outcome_Returns)
  from t f z have a': "arg' = arg\<lparr>fmt_pix := (fmt_pix arg)
        \<lparr>pix_width := width sz,
         pix_height := height sz,
         pixelformat := drmToV4L2 fmt,
         pix_field := V4L2_FIELD_NONE,
         bytesperline := bplMultiplier (drmToV4L2 fmt) * width sz,
         sizeimage := imageSize (drmToV4L2 fmt) (width sz) (height sz),
         colorspace := V4L2_COLORSPACE_SRGB,
         priv := V4L2_PIX_FMT_PRIV_MAGIC,
         ycbcr_enc := V4L2_YCBCR_ENC_DEFAULT,
         quantization := V4L2_QUANTIZATION_DEFAULT,
         xfer_func := V4L2_XFER_FUNC_DEFAULT\<rparr>\<rparr>"
    by (simp add: tryFormat_def Let_def)
  have fmt_in: "fmt \<in> set ?F"
    using f by (auto split: if_splits dest: first_or_undefined_Returns)
  have f2: "(if v4l2ToDrm (drmToV4L2 fmt) \<notin> set ?F then first_or_undefined ?F
             else Returns (v4l2ToDrm (drmToV4L2 fmt))) = Returns fmt"
  proof (cases "?req \<in> set ?F")
    case True
    with f have "fmt = ?req" by simp
    with True show ?thesis by (simp add: v4l2ToDrm_roundtrip)
  next
    case False
    with f have "first_or_undefined ?F = Returns fmt" by simp
    then obtain fs where F: "?F = fmt # fs"
      by (cases ?F) (simp_all add: first_or_undefined_def)
    with rt have "v4l2ToDrm (drmToV4L2 fmt) = fmt \<or> v4l2ToDrm (drmToV4L2 fmt) \<notin> set ?F"
      by (simp add: first_encoding_roundtrips_def)
    with F fmt_in show ?thesis by (auto simp add: first_or_undefined_def)
  qed
  have sz_in: "sz \<in> set (sizes (cfg_formats cfg) fmt)"
    using z by (auto split: if_splits dest: first_or_undefined_Returns)
  have z2: "(if Size_of (width sz) (height sz) \<notin> set (sizes (cfg_formats cfg) fmt)
         then first_or_undefined (sizes (cfg_formats cfg) fmt)
         else Returns (Size_of (width sz) (height sz))) = Returns sz"
    using sz_in by (simp add: Size_of_eta)
  show ?thesis
    unfolding a' by (simp add: tryFormat_def Let_def f2 z2)
qed

text \<open>
  C5, as the code has it. \<open>vidioc_try_fmt\<close> never changes the proxy, so a second call
  with the same argument, from any file, returns what the first returned. Applied to its
  own result it returns that result again whenever the first advertised encoding,
  converted to its V4L2 code and back, is itself or no advertised encoding (which holds
  when that encoding is one of the format table's): otherwise the second negotiation
  can start from another encoding.
\<close>

theorem try_fmt_pure:
  assumes "vidioc_try_fmt s file arg = Returns (ret, s', arg')"
  shows "s' = s \<and>
     (\<forall>file2. vidioc_try_fmt s' file2 arg = Returns (ret, s', arg')) \<and>
     (first_encoding_roundtrips (streamConfig_m s) \<longrightarrow>
        vidioc_try_fmt s' file arg' = Returns (ret, s', arg'))"
proof -
  from assms have s': "s' = s"
    by (auto simp add: vidioc_try_fmt_def split: if_splits dest!: bind_outcome_Returns)
  from assms s' have again: "\<And>file2. vidioc_try_fmt s' file2 arg = Returns (ret, s', arg')"
    by (simp add: vidioc_try_fmt_def)
  have twice: "vidioc_try_fmt s' file arg' = Returns (ret, s', arg')"
    if rt: "first_encoding_roundtrips (streamConfig_m s)"
  proof (cases "validateBufferType (fmt_type arg)")
    case False
    with assms s' show ?thesis by (simp add: vidioc_try_fmt_def)
  next
    case True
    with assms have t: "tryFormat (streamConfig_m s) arg = Returns arg'" and r: "ret = 0"
      by (auto simp add: vidioc_try_fmt_def dest!: bind_outcome_Returns)
    from t have ty: "fmt_type arg' = fmt_type arg"
      by (auto simp add: tryFormat_def Let_def dest!: bind_outcome_Returns)
    from tryFormat_twice [OF t rt] True ty r s' show ?thesis
      by (simp add: vidioc_try_fmt_def)
  qed
  from s' again twice show ?thesis by blast
qed

lemma tryFormat_example:
  "tryFormat example_config example_request =
     Returns \<lparr>fmt_type = V4L2_BUF_TYPE_VIDEO_CAPTURE, fmt_pix = example_pix\<rparr>"
  by (simp add: tryFormat_def Let_def example_request_def example_config_fields
      example_formats_values pixelformats_def sizes_def first_or_undefined_def table_eval
      Size_of_def example_pix_def layout_defs)

theorem try_fmt_pure_witness:
  "first_encoding_roundtrips (streamConfig_m opened) \<and>
   vidioc_try_fmt opened 1 example_request =
     Returns (0, opened, \<lparr>fmt_type = V4L2_BUF_TYPE_VIDEO_CAPTURE, fmt_pix = example_pix\<rparr>) \<and>
   vidioc_try_fmt opened 1 \<lparr>fmt_type = V4L2_BUF_TYPE_VIDEO_CAPTURE, fmt_pix = example_pix\<rparr> =
     Returns (0, opened, \<lparr>fmt_type = V4L2_BUF_TYPE_VIDEO_CAPTURE, fmt_pix = example_pix\<rparr>)"
proof -
  have rt: "first_encoding_roundtrips (streamConfig_m opened)"
    by (simp add: first_encoding_roundtrips_def opened_eq example_config_fields
        example_formats_values pixelformats_def drmToV4L2_table v4l2ToDrm_table)
  have once: "vidioc_try_fmt opened 1 example_request =
     Returns (0, opened, \<lparr>fmt_type = V4L2_BUF_TYPE_VIDEO_CAPTURE, fmt_pix = example_pix\<rparr>)"
    unfolding vidioc_try_fmt_def
    by (simp add: opened_eq tryFormat_example validateBufferType_def)
      (simp add: example_request_def)
  from try_fmt_pure [OF once] rt once show ?thesis by simp
qed

lemma odd_config_values:
  "odd_config =
     \<lparr>cfg_pixelFormat = PixelFormat_of 0x34324752, cfg_size = Size_of 320 240,
      cfg_bufferCount = 4,
      cfg_formats =
        [(PixelFormat_of 0x33524742, [Size_of 640 480]),
         (PixelFormat_of 0x34324752, [Size_of 320 240])]\<rparr>"
  by (simp add: odd_config_def formats_defs fourcc_code_def)

lemma streamConfig_odd_opened: "streamConfig_m odd_opened = odd_config"
  unfolding odd_opened_def open_def
  by (simp add: V4L2CameraProxy_new_def example_backend_def Let_def setFmtFromConfig_def)

lemma layout_BGR24:
  "drmToV4L2 (PixelFormat_of 0x33524742) = 0x33524742"
  "bplMultiplier 0x33524742 = 3"
  "imageSize 0x33524742 640 480 = 921600"
  "imageSize 0x33524742 320 240 = 230400"
  by (simp_all add: table_eval)

lemma PixelFormat_of_eq [simp]: "PixelFormat_of a = PixelFormat_of b \<longleftrightarrow> a = b"
  "PixelFormat_default = PixelFormat_of a \<longleftrightarrow> a = 0"
  by (auto simp add: PixelFormat_of_def PixelFormat_default_def)

lemma tryFormat_odd_once: "tryFormat odd_config example_request = Returns negotiated_once"
  by (simp add: tryFormat_def Let_def example_request_def odd_config_values pixelformats_def
      sizes_def first_or_undefined_def v4l2ToDrm_table drmToV4L2_table layout_BGR24
      Size_of_def negotiated_once_def layout_defs V4L2_PIX_FMT_BGR24_def fourcc_code_def
      V4L2_BUF_TYPE_VIDEO_CAPTURE_def)

lemma tryFormat_odd_twice: "tryFormat odd_config negotiated_once = Returns negotiated_twice"
  by (simp add: tryFormat_def Let_def odd_config_values pixelformats_def
      sizes_def first_or_undefined_def v4l2ToDrm_table drmToV4L2_table layout_BGR24
      Size_of_def negotiated_once_def negotiated_twice_def layout_defs V4L2_PIX_FMT_BGR24_def
      fourcc_code_def V4L2_BUF_TYPE_VIDEO_CAPTURE_def)

text \<open>
  The backend advertises BGR3 at 640x480 first and the table's RGB888 at 320x240 second.
  A request for an encoding it does not have is answered with the first encoding,
  written as the V4L2 code BGR3 at 640x480; trying that answer reads BGR3 as the
  table's RGB888 and returns 320x240.
\<close>

theorem try_fmt_idempotent_counterexample:
  "vidioc_try_fmt odd_opened 1 example_request = Returns (0, odd_opened, negotiated_once) \<and>
   vidioc_try_fmt odd_opened 1 negotiated_once = Returns (0, odd_opened, negotiated_twice) \<and>
   negotiated_twice \<noteq> negotiated_once"
  unfolding vidioc_try_fmt_def streamConfig_odd_opened tryFormat_odd_once tryFormat_odd_twice
  by (simp add: example_request_def negotiated_once_def negotiated_twice_def
      validateBufferType_def)

subsection \<open>Failed calls\<close>







lemma vidioc_try_fmt_same:
  "vidioc_try_fmt s file arg = Returns (ret, s', arg') \<Longrightarrow> s' = s"
  by (auto simp add: vidioc_try_fmt_def split: if_splits dest!: bind_outcome_Returns)



















lemma ioctl_ret_fields:
  "io_proxy (ioctl_ret ret s files arg) = s"
  "io_files (ioctl_ret ret s files arg) = files"
  "io_ret (ioctl_ret ret s files arg) < 0 \<longleftrightarrow> ret < 0"
  by (simp_all add: ioctl_ret_def ioctl_fail_def)











subsection \<open>The buffer table and the buffer count, when the allocation does not fail\<close>

lemma ioctl_handled_inv:
  assumes "ioctl_handled files w h = Returns r"
    and "\<And>ret s' a. h = Returns (ret, s', a) \<Longrightarrow> table_inv s'"
  shows "table_inv (io_proxy r)"
  using assms
  by (auto simp add: ioctl_handled_def ioctl_ret_fields dest!: bind_outcome_Returns)

lemma updateBuffers_inv: "updateBuffers s b = Returns s1 \<Longrightarrow> table_inv s \<Longrightarrow> table_inv s1"
  using updateBuffers_keeps(1,5) [of s b s1] by (simp add: table_inv_def)

lemma vidioc_s_fmt_inv:
  "vidioc_s_fmt s files file arg b = Returns (ret, s', arg') \<Longrightarrow> table_inv s \<Longrightarrow> table_inv s'"
  by (cases "acquire s file")
    (auto simp add: vidioc_s_fmt_def acquire_def setFmtFromConfig_def table_inv_def Let_def
      split: if_splits dest!: bind_outcome_Returns)

lemma vidioc_reqbufs_inv:
  "vidioc_reqbufs s files file arg b = Returns (ret, s', arg') \<Longrightarrow> 0 \<le> allocBuffers_ret b \<Longrightarrow>
   table_inv s \<Longrightarrow> table_inv s'"
  by (auto simp add: vidioc_reqbufs_def acquire_def release_def freeBuffers_def
      setFmtFromConfig_def table_inv_def Let_def split: if_splits)

lemma vidioc_querybuf_inv:
  "vidioc_querybuf s file arg b = Returns (ret, s', arg') \<Longrightarrow> table_inv s \<Longrightarrow> table_inv s'"
  by (auto simp add: vidioc_querybuf_def split: if_splits
      dest!: bind_outcome_Returns dest: updateBuffers_inv)

lemma vidioc_qbuf_inv:
  "vidioc_qbuf s file arg b = Returns (ret, s', arg') \<Longrightarrow> table_inv s \<Longrightarrow> table_inv s'"
  by (auto simp add: vidioc_qbuf_def table_inv_def Let_def split: if_splits)

lemma dqbuf_dequeue_inv:
  "dqbuf_dequeue s arg b = Returns (ret, s', arg') \<Longrightarrow> table_inv s \<Longrightarrow> table_inv s'"
proof (cases "updateBuffers s b")
  case (Returns s1)
  assume d: "dqbuf_dequeue s arg b = Returns (ret, s', arg')" and i: "table_inv s"
  from updateBuffers_inv [OF Returns i] have "table_inv s1" .
  with d Returns i show ?thesis
    by (auto simp add: dqbuf_dequeue_def table_inv_def Let_def split: if_splits)
qed (auto simp add: dqbuf_dequeue_def split: if_splits)

lemma vidioc_dqbuf_inv:
  "vidioc_dqbuf s files file arg b = Returns (ret, s', arg') \<Longrightarrow> table_inv s \<Longrightarrow> table_inv s'"
  by (auto simp add: vidioc_dqbuf_def waitForBufferAvailable_def split: if_splits
      dest: dqbuf_dequeue_inv)

lemma vidioc_streamon_inv:
  "vidioc_streamon s files file arg b = Returns (ret, s', arg') \<Longrightarrow> table_inv s \<Longrightarrow> table_inv s'"
  by (auto simp add: vidioc_streamon_def vcam_streamOn_def table_inv_def Let_def
      split: if_splits)

lemma vidioc_streamoff_inv:
  "vidioc_streamoff s files file arg b = Returns (ret, s', arg') \<Longrightarrow> table_inv s \<Longrightarrow> table_inv s'"
  by (auto simp add: vidioc_streamoff_def vcam_streamOff_def table_inv_def split: if_splits)

lemma ioctl_inv:
  assumes i: "ioctl s files file request arg b = Returns r" and a: "0 \<le> allocBuffers_ret b"
    and t: "table_inv s"
  shows "table_inv (io_proxy r)"
  using i a t unfolding ioctl_def
  by (auto split: if_splits option.splits ioctl_arg.splits prod.splits
      simp add: ioctl_fail_def ioctl_ret_fields
        vidioc_querycap_def vidioc_enum_framesizes_def vidioc_enum_fmt_def vidioc_g_fmt_def
        vidioc_g_priority_def vidioc_enuminput_def vidioc_g_input_def vidioc_s_input_def Let_def
      elim!: ioctl_handled_inv
      dest: vidioc_s_fmt_inv vidioc_try_fmt_same vidioc_reqbufs_inv vidioc_querybuf_inv
        vidioc_qbuf_inv vidioc_dqbuf_inv vidioc_streamon_inv vidioc_streamoff_inv)

text \<open>
  The invariant of the buffer table: the new proxy has it, and \<open>open\<close>, \<open>close\<close>,
  \<open>mmap\<close>, \<open>munmap\<close> and every \<open>ioctl\<close> during which \<open>allocBuffers\<close> does not
  fail keep it.
\<close>

theorem table_inv_kept:
  "table_inv (V4L2CameraProxy_new idx name format0 sizeimage0) \<and>
   (table_inv s \<longrightarrow>
      table_inv (snd (open s file b)) \<and> table_inv (close s file) \<and>
      (\<forall>r. 0 \<le> allocBuffers_ret b \<and> ioctl s files file request arg b = Returns r \<longrightarrow>
         table_inv (io_proxy r)) \<and>
      (\<forall>m e s'. mmap s addr len prot flags offset b = Returns (m, e, s') \<longrightarrow> table_inv s') \<and>
      (\<forall>ret e s'. munmap s addr len = Returns (ret, e, s') \<longrightarrow> table_inv s'))"
proof (intro conjI impI allI)
  show "table_inv (V4L2CameraProxy_new idx name format0 sizeimage0)"
    by (simp add: table_inv_def V4L2CameraProxy_new_def)
next
  assume "table_inv s"
  then show "table_inv (snd (open s file b))"
    by (simp add: open_def table_inv_def setFmtFromConfig_def Let_def)
next
  assume "table_inv s"
  then show "table_inv (close s file)"
    by (simp add: close_def release_def table_inv_def Let_def)
next
  fix r
  assume "table_inv s" and "0 \<le> allocBuffers_ret b \<and> ioctl s files file request arg b = Returns r"
  then show "table_inv (io_proxy r)" using ioctl_inv by blast
next
  fix m e s'
  assume "table_inv s" and "mmap s addr len prot flags offset b = Returns (m, e, s')"
  then show "table_inv s'"
    by (auto simp add: mmap_def table_inv_def Let_def split: if_splits option.splits)
next
  fix ret e s'
  assume "table_inv s" and "munmap s addr len = Returns (ret, e, s')"
  then show "table_inv s'"
    by (auto simp add: munmap_def table_inv_def split: if_splits option.splits)
qed

theorem table_inv_kept_witness:
  "table_inv opened \<and> 0 \<le> allocBuffers_ret (grants 2) \<and> table_inv allocated2 \<and>
   bufferCount_m allocated2 = 2 \<and> length (buffers_m allocated2) = 2"
proof -
  have o: "table_inv opened" by (simp add: table_inv_def opened_eq)
  have a: "0 \<le> allocBuffers_ret (grants 2)" by (simp add: grants_def example_backend_def)
  have r: "vidioc_reqbufs opened example_files 1 (capture_request 2) (grants 2) =
      Returns (0, allocated2, (capture_request 2)\<lparr>rb_capabilities := 1\<rparr>)"
    unfolding allocated2_eq unfolding vidioc_reqbufs_def
    by (simp add: opened_eq capture_request_def grants_def example_backend_def
      validateBufferType_def validateMemoryType_def maxPriority_example file_priority_example
      hasOwnership_def Let_def setFmtFromConfig_example calculateSizeImage_example
      example_config_fields new_buffer_opened acquire_def example_pix_def upt_rec const_defs)
  have i: "ioctl opened example_files 1 VIDIOC_REQBUFS
      (Some (Arg_requestbuffers (capture_request 2))) (grants 2) =
      Returns (ioctl_ret 0 allocated2 example_files
        (Some (Arg_requestbuffers ((capture_request 2)\<lparr>rb_capabilities := 1\<rparr>))))"
    unfolding ioctl_def ioctl_handled_def
    using r by (simp add: supportedIoctls_def vidioc_values)
  from table_inv_kept [of 0 "''camera''" v4l2_format_zero 0 opened 1 "grants 2" example_files VIDIOC_REQBUFS
      "Some (Arg_requestbuffers (capture_request 2))"] o a i
  have "table_inv allocated2" by (simp add: ioctl_ret_fields)
  with o a show ?thesis by (simp add: allocated2_eq table_inv_def)
qed

subsection \<open>How the buffer table assumed for dequeueing comes about\<close>

lemma buf_index_new_buffer: "buf_index (new_buffer s i) = of_nat i"
  by (simp add: new_buffer_def v4l2_buffer_zero_def)

lemma vidioc_reqbufs_table:
  assumes "vidioc_reqbufs s files file arg b = Returns (ret, s1, arg1)" and "0 \<le> ret"
    and "rb_count arg \<noteq> 0"
  shows "length (buffers_m s1) = unat (bufferCount_m s1) \<and>
     (\<forall>i < length (buffers_m s1). buf_index (buffers_m s1 ! i) = of_nat i)"
  using assms
  by (auto simp add: vidioc_reqbufs_def acquire_def Let_def buf_index_new_buffer
      split: if_splits)

text \<open>
  A successful \<open>vidioc_reqbufs\<close> with a count other than zero followed by a
  \<open>vidioc_streamon\<close> that starts the stream leaves the proxy with the buffer table of
  \<open>buffers_wf\<close>: as many slots as the buffer count says, slot \<open>i\<close> carrying index
  \<open>i\<close>, and the cursor on slot 0.
\<close>

theorem reqbufs_streamon_wf:
  assumes "vidioc_reqbufs s files file arg b = Returns (ret, s1, arg1)" and "0 \<le> ret"
    and "rb_count arg \<noteq> 0"
    and "vidioc_streamon s1 files2 file2 arg2 b2 = Returns (ret2, s2, arg3)" and "0 \<le> ret2"
    and "\<not> isRunning_m (vcam_m s1)"
  shows "buffers_wf s2 \<and> currentBuf_m s2 = 0 \<and> buffers_m s2 = buffers_m s1 \<and>
     bufferCount_m s2 = bufferCount_m s1"
proof -
  note t = vidioc_reqbufs_table [OF assms(1-3)]
  from assms(4-6) have s2: "s2 = s1\<lparr>currentBuf_m := 0, vcam_m := (vcam_m s1)\<lparr>isRunning_m := True\<rparr>\<rparr>"
    and n: "bufferCount_m s1 \<noteq> 0"
    by (auto simp add: vidioc_streamon_def vcam_streamOn_def Let_def split: if_splits)
  from n have "0 < bufferCount_m s1" by (simp add: word_neq_0_conv)
  with t s2 show ?thesis by (simp add: buffers_wf_iff)
qed

theorem reqbufs_streamon_wf_witness:
  "buffers_wf streaming2 \<and> currentBuf_m streaming2 = 0 \<and> bufferCount_m streaming2 = 2"
proof -
  have r: "vidioc_reqbufs opened example_files 1 (capture_request 2) (grants 2) =
      Returns (0, allocated2, (capture_request 2)\<lparr>rb_capabilities := 1\<rparr>)"
    unfolding allocated2_eq unfolding vidioc_reqbufs_def
    by (simp add: opened_eq capture_request_def grants_def example_backend_def
      validateBufferType_def validateMemoryType_def maxPriority_example file_priority_example
      hasOwnership_def Let_def setFmtFromConfig_example calculateSizeImage_example
      example_config_fields new_buffer_opened acquire_def example_pix_def upt_rec const_defs)
  have c: "rb_count (capture_request 2) \<noteq> 0" by (simp add: capture_request_def)
  have o: "vidioc_streamon allocated2 example_files 1 V4L2_BUF_TYPE_VIDEO_CAPTURE example_backend =
      Returns (0, streaming2, V4L2_BUF_TYPE_VIDEO_CAPTURE)"
    unfolding streaming2_eq unfolding vidioc_streamon_def
    by (simp add: allocated2_eq opened_eq example_backend_def validateBufferType_def
      maxPriority_example file_priority_example hasOwnership_def vcam_streamOn_def)
  have n: "\<not> isRunning_m (vcam_m allocated2)" by (simp add: allocated2_eq opened_eq)
  from reqbufs_streamon_wf [OF r _ c o _ n] show ?thesis
    by (simp add: streaming2_eq allocated2_eq)
qed

end
